theory Spec2Isabelle
  imports Complex_Main
begin

section \<open>JavaScript values that reach the server\<close>

text \<open>
  The tool arguments, the parsed \<open>details\<close> and the body of the upstream response are
  JSON values. A number is kept abstract (type \<open>'n\<close>): the program never computes with
  one, it only prints it, and the printing function is a parameter of the platform
  below. A string is a list of code units. An object is the list of its own properties
  in the order \<open>Object.entries\<close> enumerates them, with distinct keys. The JavaScript
  value \<open>undefined\<close> is \<open>None\<close> of \<open>'n json option\<close>.
\<close>

datatype 'n json =
    JNull
  | JBool bool
  | JNum 'n
  | JStr string
  | JArr "'n json list"
  | JObj "(string \<times> 'n json) list"

datatype js_error =
    TypeError string
  | SyntaxError string
  | AxiosError string

fun message :: "js_error \<Rightarrow> string" where
  "message (TypeError m) = m"
| "message (SyntaxError m) = m"
| "message (AxiosError m) = m"

text \<open>The \<open>typeof\<close> operator.\<close>

fun typeof :: "'n json option \<Rightarrow> string" where
  "typeof None = ''undefined''"
| "typeof (Some JNull) = ''object''"
| "typeof (Some (JBool b)) = ''boolean''"
| "typeof (Some (JNum n)) = ''number''"
| "typeof (Some (JStr s)) = ''string''"
| "typeof (Some (JArr xs)) = ''object''"
| "typeof (Some (JObj kvs)) = ''object''"

text \<open>
  \<open>typeof args.k === 'string' ? args.k : undefined\<close>, the normalisation the dispatcher
  applies to every field it reads.
\<close>

definition string_field :: "(string \<rightharpoonup> 'n json) \<Rightarrow> string \<Rightarrow> string option" where
  "string_field args k =
     (if typeof (args k) = ''string''
      then (case args k of Some (JStr s) \<Rightarrow> Some s | _ \<Rightarrow> None)
      else None)"

text \<open>Truthiness of a value of type \<open>string | undefined\<close>: the empty string is falsy.\<close>

fun truthy :: "string option \<Rightarrow> bool" where
  "truthy None = False"
| "truthy (Some s) = (s \<noteq> [])"

subsection \<open>Decimal index keys\<close>

definition digit_char :: "nat \<Rightarrow> char" where
  "digit_char d = char_of (48 + d)"

function string_of_nat :: "nat \<Rightarrow> string" where
  "string_of_nat n =
     (if n < 10 then [digit_char n]
      else string_of_nat (n div 10) @ [digit_char (n mod 10)])"
  by pat_completeness auto
termination
  by (relation "measure id") auto

declare string_of_nat.simps [simp del]

subsection \<open>\<open>Object.entries\<close> and \<open>Object.keys\<close>\<close>

text \<open>
  \<open>Object.keys\<close> and \<open>Object.entries\<close> convert their argument to an object first: that
  throws on \<open>null\<close>, wraps a number or a boolean in an object with no own enumerable
  property, and gives a string or an array its index properties.
\<close>

fun Object_entries :: "'n json \<Rightarrow> js_error + (string \<times> 'n json) list" where
  "Object_entries JNull = Inl (TypeError ''Cannot convert undefined or null to object'')"
| "Object_entries (JBool b) = Inr []"
| "Object_entries (JNum n) = Inr []"
| "Object_entries (JStr s) =
     Inr (zip (map string_of_nat [0..<length s]) (map (\<lambda>c. JStr [c]) s))"
| "Object_entries (JArr xs) = Inr (zip (map string_of_nat [0..<length xs]) xs)"
| "Object_entries (JObj kvs) = Inr kvs"

definition Object_keys :: "'n json \<Rightarrow> js_error + string list" where
  "Object_keys v =
     (case Object_entries v of Inl e \<Rightarrow> Inl e | Inr kvs \<Rightarrow> Inr (map fst kvs))"

subsection \<open>String conversion in a template literal\<close>

text \<open>
  \<open>`${value}`\<close> applies ToString. A plain object prints as \<open>[object Object]\<close> through
  \<open>Object.prototype.toString\<close>; an own property named \<open>toString\<close> shadows that method,
  and since no JSON value is callable the conversion then throws. An array prints its
  elements joined by commas, \<open>null\<close> elements as the empty string.
\<close>

fun join :: "string \<Rightarrow> string list \<Rightarrow> string" where
  "join sep [] = []"
| "join sep [s] = s"
| "join sep (s # t # ss) = s @ sep @ join sep (t # ss)"

fun ToString :: "('n \<Rightarrow> string) \<Rightarrow> 'n json \<Rightarrow> js_error + string"
and ToString_elements :: "('n \<Rightarrow> string) \<Rightarrow> 'n json list \<Rightarrow> js_error + string list" where
  "ToString num JNull = Inr ''null''"
| "ToString num (JBool b) = Inr (if b then ''true'' else ''false'')"
| "ToString num (JNum n) = Inr (num n)"
| "ToString num (JStr s) = Inr s"
| "ToString num (JArr xs) =
     (case ToString_elements num xs of
        Inl e \<Rightarrow> Inl e
      | Inr ss \<Rightarrow> Inr (join '','' ss))"
| "ToString num (JObj kvs) =
     (if ''toString'' \<in> set (map fst kvs)
      then Inl (TypeError ''Cannot convert object to primitive value'')
      else Inr ''[object Object]'')"
| "ToString_elements num [] = Inr []"
| "ToString_elements num (x # xs) =
     (case (if x = JNull then Inr [] else ToString num x) of
        Inl e \<Rightarrow> Inl e
      | Inr s \<Rightarrow>
          (case ToString_elements num xs of
             Inl e \<Rightarrow> Inl e
           | Inr ss \<Rightarrow> Inr (s # ss)))"

subsection \<open>Reading the response\<close>

text \<open>
  Property access \<open>v.k\<close> for the names this program reads (\<open>choices\<close>, \<open>message\<close>,
  \<open>content\<close>), which no built-in prototype defines, and \<open>v[0]\<close>. Reading a property of
  \<open>undefined\<close> or \<open>null\<close> throws; a primitive has no such property.
\<close>

definition cannot_read :: "string \<Rightarrow> string \<Rightarrow> js_error" where
  "cannot_read what k =
     TypeError (''Cannot read properties of '' @ what @ '' (reading '' @
                [CHR 0x27] @ k @ [CHR 0x27] @ '')'')"

fun get_member :: "'n json option \<Rightarrow> string \<Rightarrow> js_error + 'n json option" where
  "get_member None k = Inl (cannot_read ''undefined'' k)"
| "get_member (Some JNull) k = Inl (cannot_read ''null'' k)"
| "get_member (Some (JObj kvs)) k = Inr (map_of kvs k)"
| "get_member (Some v) k = Inr None"

fun get_index0 :: "'n json option \<Rightarrow> js_error + 'n json option" where
  "get_index0 None = Inl (cannot_read ''undefined'' ''0'')"
| "get_index0 (Some JNull) = Inl (cannot_read ''null'' ''0'')"
| "get_index0 (Some (JObj kvs)) = Inr (map_of kvs ''0'')"
| "get_index0 (Some (JArr xs)) = Inr (case xs of [] \<Rightarrow> None | x # _ \<Rightarrow> Some x)"
| "get_index0 (Some (JStr s)) = Inr (case s of [] \<Rightarrow> None | c # _ \<Rightarrow> Some (JStr [c]))"
| "get_index0 (Some v) = Inr None"

text \<open>\<open>response.data.choices[0].message.content\<close>\<close>

definition read_content :: "'n json \<Rightarrow> js_error + 'n json option" where
  "read_content data =
     (case get_member (Some data) ''choices'' of
        Inl e \<Rightarrow> Inl e
      | Inr choices \<Rightarrow>
          (case get_index0 choices of
             Inl e \<Rightarrow> Inl e
           | Inr choice \<Rightarrow>
               (case get_member choice ''message'' of
                  Inl e \<Rightarrow> Inl e
                | Inr msg \<Rightarrow> get_member msg ''content'')))"

section \<open>Requests and results\<close>

datatype content_part =
    is_text: text_part (part_text: string)
  | is_image: image_url_part (part_url: string) (detail: string)

datatype message_content =
    plain string
  | parts "content_part list"

record ChatMessage =
  role :: string
  content :: message_content

text \<open>The \<open>temperature\<close> of a request is the decimal literal \<open>0.7\<close>.\<close>

record ChatRequest =
  model :: string
  messages :: "ChatMessage list"
  temperature :: rat

record http_request =
  url :: string
  body :: ChatRequest
  headers :: "(string \<times> string) list"

text \<open>A block of a tool result; \<open>block_text\<close> is whatever value the handler put there.\<close>

record 'n text_block =
  block_type :: string
  block_text :: "'n json option"

record 'n ToolResult =
  result_content :: "'n text_block list"
  isError :: "bool option"

datatype ErrorCode = InvalidParams | MethodNotFound

text \<open>The two arguments the program gives the \<open>McpError\<close> constructor.\<close>

datatype McpError = McpError ErrorCode string

record 'n CallToolRequest =
  name :: string
  arguments :: "(string \<rightharpoonup> 'n json) option"

section \<open>The platform and the server\<close>

text \<open>
  What the program calls and does not define: \<open>JSON.parse\<close>, the printing of a number,
  and \<open>axios.post\<close>, which either throws or resolves to a response whose \<open>data\<close> is the
  value returned here.
\<close>

record 'n platform =
  JSON_parse :: "string \<Rightarrow> js_error + 'n json"
  Number_toString :: "'n \<Rightarrow> string"
  axios_post :: "http_request \<Rightarrow> js_error + 'n json"

record GrokAIServer =
  apiKey :: string

record transaction_args =
  signature :: string
  tx_screenshot :: "string option"
  details :: "string option"

record address_args =
  address :: string
  addr_screenshot :: "string option"

record image_args =
  img_image :: "string option"
  img_image_url :: "string option"
  prompt :: string

record ask_args =
  question :: string
  ask_context :: "string option"
  ask_image :: "string option"
  ask_image_url :: "string option"

text \<open>
  A handler's effect is the list of HTTP requests it issued, returned beside its value.
  \<open>upstream\<close> is the awaited \<open>axios.post\<close> call followed by the read of
  \<open>response.data.choices[0].message.content\<close>; \<open>post\<close> builds the request the way
  every handler does and records it.
\<close>

definition upstream :: "'n platform \<Rightarrow> http_request \<Rightarrow> js_error + 'n json option" where
  "upstream P request =
     (case axios_post P request of
        Inl e \<Rightarrow> Inl e
      | Inr data \<Rightarrow> read_content data)"

definition chat_completion_request ::
  "GrokAIServer \<Rightarrow> string \<Rightarrow> ChatMessage list \<Rightarrow> http_request" where
  "chat_completion_request this mdl msgs =
     \<lparr>url = ''https://api.x.ai/v1/chat/completions'',
      body = \<lparr>model = mdl, messages = msgs, temperature = 7 / 10\<rparr>,
      headers = [(''Content-Type'', ''application/json''),
                 (''Authorization'', ''Bearer '' @ apiKey this)]\<rparr>"

definition post ::
  "'n platform \<Rightarrow> GrokAIServer \<Rightarrow> string \<Rightarrow> ChatMessage list \<Rightarrow>
     (js_error + 'n json option) \<times> http_request list" where
  "post P this mdl msgs =
     (let request = chat_completion_request this mdl msgs
      in (upstream P request, [request]))"

text \<open>The result a handler returns from its \<open>try\<close> block and from its \<open>catch\<close> block.\<close>

definition success_result :: "'n json option \<Rightarrow> 'n ToolResult" where
  "success_result txt =
     \<lparr>result_content = [\<lparr>block_type = ''text'', block_text = txt\<rparr>], isError = None\<rparr>"

definition error_result :: "string \<Rightarrow> js_error \<Rightarrow> 'n ToolResult" where
  "error_result prefix error =
     \<lparr>result_content =
        [\<lparr>block_type = ''text'', block_text = Some (JStr (prefix @ message error))\<rparr>],
      isError = Some True\<rparr>"

text \<open>
  \<open>try { ... return {content: [...]} } catch (error) { return {content: [...], isError:
  true} }\<close> around a body that ends with a value or a thrown error.
\<close>

definition catch ::
  "string \<Rightarrow> (js_error + 'n json option) \<times> http_request list \<Rightarrow>
     'n ToolResult \<times> http_request list" where
  "catch prefix r =
     (case fst r of
        Inr txt \<Rightarrow> success_result txt
      | Inl error \<Rightarrow> error_result prefix error,
      snd r)"

definition image_jpeg :: "string \<Rightarrow> content_part" where
  "image_jpeg b64 = image_url_part (''data:image/jpeg;base64,'' @ b64) ''high''"

text \<open>
  \<open>if (screenshot) { content.push({type: "image_url", ...}) }\<close>: what the two
  blockchain handlers append to the user content.
\<close>

fun screenshot_parts :: "string option \<Rightarrow> content_part list" where
  "screenshot_parts None = []"
| "screenshot_parts (Some s) = (if s \<noteq> [] then [image_jpeg s] else [])"

section \<open>The handlers\<close>

subsection \<open>\<open>handleAnalyzeTransaction\<close>\<close>

text \<open>
  \<open>let detailsObj = {}; if (details) { try { detailsObj = JSON.parse(details) } catch
  (err) { ... } }\<close>
\<close>

fun parse_details :: "'n platform \<Rightarrow> string option \<Rightarrow> 'n json" where
  "parse_details P None = JObj []"
| "parse_details P (Some s) =
     (if s \<noteq> []
      then (case JSON_parse P s of Inr v \<Rightarrow> v | Inl err \<Rightarrow> JObj [])
      else JObj [])"

text \<open>The template \<open>`- ${key}: ${value}\n`\<close>, given the string of the value.\<close>

definition detail_line :: "string \<Rightarrow> string \<Rightarrow> string" where
  "detail_line key s = ''- '' @ key @ '': '' @ s @ [CHR 0x0A]"

text \<open>The \<open>for\<close> loop over \<open>Object.entries(detailsObj)\<close>, appending to the prompt text.\<close>

fun details_loop ::
  "('n \<Rightarrow> string) \<Rightarrow> string \<Rightarrow> (string \<times> 'n json) list \<Rightarrow> js_error + string" where
  "details_loop num userPromptText [] = Inr userPromptText"
| "details_loop num userPromptText ((key, v) # rest) =
     (if key \<noteq> ''signature''
      then (case ToString num v of
              Inl e \<Rightarrow> Inl e
            | Inr s \<Rightarrow>
                details_loop num (userPromptText @ detail_line key s) rest)
      else details_loop num userPromptText rest)"

definition transaction_prompt ::
  "'n platform \<Rightarrow> string \<Rightarrow> 'n json \<Rightarrow> js_error + string" where
  "transaction_prompt P sig detailsObj =
     (let userPromptText =
        ''Analyze this Solana transaction: '' @ sig @ [CHR 0x0A, CHR 0x0A]
      in (case Object_keys detailsObj of
            Inl e \<Rightarrow> Inl e
          | Inr keys \<Rightarrow>
              if length keys > 0
              then (case Object_entries detailsObj of
                      Inl e \<Rightarrow> Inl e
                    | Inr entries \<Rightarrow>
                        details_loop (Number_toString P)
                          (userPromptText @ ''Additional details:'' @ [CHR 0x0A]) entries)
              else Inr userPromptText))"

definition transaction_system_prompt :: string where
  "transaction_system_prompt =
     ''You are an expert Solana blockchain analyst. '' @
     ''Analyze the given transaction information and provide detailed insights. '' @
     ''Focus on what the transaction does, which programs it interacts with, and its overall purpose. '' @
     ''If applicable, mention any tokens transferred, their amounts, and the parties involved.''"

definition handleAnalyzeTransaction ::
  "'n platform \<Rightarrow> GrokAIServer \<Rightarrow> transaction_args \<Rightarrow>
     'n ToolResult \<times> http_request list" where
  "handleAnalyzeTransaction P this args =
     catch ''Error analyzing transaction: ''
       (let detailsObj = parse_details P (details args)
        in (case transaction_prompt P (signature args) detailsObj of
              Inl e \<Rightarrow> (Inl e, [])
            | Inr userPromptText \<Rightarrow>
                (let userContent = [text_part userPromptText];
                     userContent = userContent @ screenshot_parts (tx_screenshot args);
                     msgs = [\<lparr>role = ''system'', content = plain transaction_system_prompt\<rparr>,
                             \<lparr>role = ''user'', content = parts userContent\<rparr>]
                 in post P this ''grok-2-vision-latest'' msgs)))"

subsection \<open>\<open>handleAnalyzeAddress\<close>\<close>

definition address_system_prompt :: string where
  "address_system_prompt =
     ''You are an expert Solana blockchain analyst. Analyze the given address information and provide detailed insights.''"

definition handleAnalyzeAddress ::
  "'n platform \<Rightarrow> GrokAIServer \<Rightarrow> address_args \<Rightarrow> 'n ToolResult \<times> http_request list" where
  "handleAnalyzeAddress P this args =
     catch ''Error analyzing address: ''
       (let cont = [text_part (''Analyze this Solana address: '' @ address args)];
            cont = cont @ screenshot_parts (addr_screenshot args);
            msgs = [\<lparr>role = ''system'', content = plain address_system_prompt\<rparr>,
                    \<lparr>role = ''user'', content = parts cont\<rparr>]
        in post P this ''grok-2-vision-latest'' msgs)"

subsection \<open>\<open>handleAnalyzeImage\<close>\<close>

text \<open>The image part both image handlers push first: \<open>if (image) ... else if (image_url)\<close>.\<close>

fun url_parts :: "string option \<Rightarrow> content_part list" where
  "url_parts None = []"
| "url_parts (Some u) = (if u \<noteq> [] then [image_url_part u ''high''] else [])"

fun image_parts :: "string option \<Rightarrow> string option \<Rightarrow> content_part list" where
  "image_parts None img_url = url_parts img_url"
| "image_parts (Some i) img_url = (if i \<noteq> [] then [image_jpeg i] else url_parts img_url)"

definition image_system_prompt :: string where
  "image_system_prompt =
     ''You are an advanced AI with powerful vision capabilities. Analyze the provided image and respond to the user'' @
     [CHR 0x27] @ ''s query in detail.''"

definition handleAnalyzeImage ::
  "'n platform \<Rightarrow> GrokAIServer \<Rightarrow> image_args \<Rightarrow> 'n ToolResult \<times> http_request list" where
  "handleAnalyzeImage P this args =
     catch ''Error analyzing image: ''
       (let userContent = image_parts (img_image args) (img_image_url args);
            userContent = userContent @ [text_part (prompt args)];
            msgs = [\<lparr>role = ''system'', content = plain image_system_prompt\<rparr>,
                    \<lparr>role = ''user'', content = parts userContent\<rparr>]
        in post P this ''grok-2-vision-latest'' msgs)"

subsection \<open>\<open>handleAskGrok\<close>\<close>

text \<open>\<open>context ? `${context}\n\n${question}` : question\<close>\<close>

fun question_text :: "string option \<Rightarrow> string \<Rightarrow> string" where
  "question_text None q = q"
| "question_text (Some c) q = (if c \<noteq> [] then c @ [CHR 0x0A, CHR 0x0A] @ q else q)"

definition ask_system_prompt :: string where
  "ask_system_prompt =
     ''You are Grok, a helpful AI assistant with expertise in blockchain technology, especially Solana. You can also analyze images when provided.''"

definition handleAskGrok ::
  "'n platform \<Rightarrow> GrokAIServer \<Rightarrow> ask_args \<Rightarrow> 'n ToolResult \<times> http_request list" where
  "handleAskGrok P this args =
     catch ''Error asking Grok: ''
       (let userContent = image_parts (ask_image args) (ask_image_url args);
            userContent = userContent @
              [text_part (question_text (ask_context args) (question args))];
            msgs = [\<lparr>role = ''system'', content = plain ask_system_prompt\<rparr>,
                    \<lparr>role = ''user'', content = parts userContent\<rparr>];
            mdl = (if truthy (ask_image args) \<or> truthy (ask_image_url args)
                   then ''grok-2-vision-latest'' else ''grok-2-latest'')
        in post P this mdl msgs)"

section \<open>The dispatcher\<close>

text \<open>
  The handler registered for \<open>CallToolRequestSchema\<close>. A thrown \<open>McpError\<close> is \<open>Inl\<close>;
  it is thrown before any handler runs, so no request has been issued. The test
  \<open>!args || typeof args.k !== 'string'\<close> is the two \<open>case\<close>s that end in the same throw.
\<close>

definition CallTool ::
  "'n platform \<Rightarrow> GrokAIServer \<Rightarrow> 'n CallToolRequest \<Rightarrow>
     (McpError + 'n ToolResult) \<times> http_request list" where
  "CallTool P this request =
     (let args = arguments request in
      if name request = ''analyze_transaction'' then
        (case args of
           None \<Rightarrow> (Inl (McpError InvalidParams ''Missing required signature parameter''), [])
         | Some a \<Rightarrow>
             (case string_field a ''signature'' of
                None \<Rightarrow>
                  (Inl (McpError InvalidParams ''Missing required signature parameter''), [])
              | Some sig \<Rightarrow>
                  map_prod Inr id
                    (handleAnalyzeTransaction P this
                       \<lparr>signature = sig,
                        tx_screenshot = string_field a ''screenshot'',
                        details = string_field a ''details''\<rparr>)))
      else if name request = ''analyze_address'' then
        (case args of
           None \<Rightarrow> (Inl (McpError InvalidParams ''Missing required address parameter''), [])
         | Some a \<Rightarrow>
             (case string_field a ''address'' of
                None \<Rightarrow>
                  (Inl (McpError InvalidParams ''Missing required address parameter''), [])
              | Some addr \<Rightarrow>
                  map_prod Inr id
                    (handleAnalyzeAddress P this
                       \<lparr>address = addr,
                        addr_screenshot = string_field a ''screenshot''\<rparr>)))
      else if name request = ''analyze_image'' then
        (case args of
           None \<Rightarrow> (Inl (McpError InvalidParams ''Missing required prompt parameter''), [])
         | Some a \<Rightarrow>
             (case string_field a ''prompt'' of
                None \<Rightarrow>
                  (Inl (McpError InvalidParams ''Missing required prompt parameter''), [])
              | Some p \<Rightarrow>
                  map_prod Inr id
                    (handleAnalyzeImage P this
                       \<lparr>img_image = string_field a ''image'',
                        img_image_url = string_field a ''image_url'',
                        prompt = p\<rparr>)))
      else if name request = ''ask_grok'' then
        (case args of
           None \<Rightarrow> (Inl (McpError InvalidParams ''Missing required question parameter''), [])
         | Some a \<Rightarrow>
             (case string_field a ''question'' of
                None \<Rightarrow>
                  (Inl (McpError InvalidParams ''Missing required question parameter''), [])
              | Some q \<Rightarrow>
                  map_prod Inr id
                    (handleAskGrok P this
                       \<lparr>question = q,
                        ask_context = string_field a ''context'',
                        ask_image = string_field a ''image'',
                        ask_image_url = string_field a ''image_url''\<rparr>)))
      else (Inl (McpError MethodNotFound (''Unknown tool: '' @ name request)), []))"

text \<open>
  The \<open>required\<close> entry of each tool's input schema in the \<open>ListTools\<close> handler, and
  the text each handler's \<open>catch\<close> block puts before \<open>error.message\<close>.
\<close>

definition required_param :: "string \<Rightarrow> string option" where
  "required_param nm =
     (if nm = ''analyze_transaction'' then Some ''signature''
      else if nm = ''analyze_address'' then Some ''address''
      else if nm = ''analyze_image'' then Some ''prompt''
      else if nm = ''ask_grok'' then Some ''question''
      else None)"

definition error_prefix :: "string \<Rightarrow> string" where
  "error_prefix nm =
     (if nm = ''analyze_transaction'' then ''Error analyzing transaction: ''
      else if nm = ''analyze_address'' then ''Error analyzing address: ''
      else if nm = ''analyze_image'' then ''Error analyzing image: ''
      else ''Error asking Grok: '')"

text \<open>The content parts of the user message of a request, for stating what was sent.\<close>

fun content_parts :: "message_content \<Rightarrow> content_part list" where
  "content_parts (parts ps) = ps"
| "content_parts (plain s) = []"

definition user_parts :: "http_request \<Rightarrow> content_part list" where
  "user_parts request =
     concat (map (\<lambda>m. content_parts (content m))
               (filter (\<lambda>m. role m = ''user'') (messages (body request))))"

definition user_text :: "http_request \<Rightarrow> string list" where
  "user_text request = map part_text (filter is_text (user_parts request))"

definition user_images :: "http_request \<Rightarrow> content_part list" where
  "user_images request = filter is_image (user_parts request)"

text \<open>
  An optional field as the handlers' truthiness tests see it: the empty string counts
  as absent.
\<close>

fun present :: "string option \<Rightarrow> string option" where
  "present None = None"
| "present (Some s) = (if s \<noteq> [] then Some s else None)"

text \<open>A field that is a non-empty string, and one that is absent or the empty string.\<close>

definition nonempty_string :: "(string \<rightharpoonup> 'n json) \<Rightarrow> string \<Rightarrow> bool" where
  "nonempty_string a k = (case a k of Some (JStr s) \<Rightarrow> s \<noteq> [] | _ \<Rightarrow> False)"

definition blank :: "(string \<rightharpoonup> 'n json) \<Rightarrow> string \<Rightarrow> bool" where
  "blank a k = (a k = None \<or> a k = Some (JStr []))"

section \<open>Sample calls\<close>

text \<open>
  Concrete inputs at which the theorems below are instantiated. \<open>sample_parse\<close> agrees
  with \<open>JSON.parse\<close> on the four texts it is applied to below (\<open>null\<close>, the two object
  texts and \<open>not json\<close>); it is not meant to elsewhere. Numbers are naturals, printed
  in decimal.
\<close>

definition quoted :: "string \<Rightarrow> string" where
  "quoted s = CHR 0x22 # s @ [CHR 0x22]"

definition sample_details :: string where
  "sample_details =
     ''{'' @ quoted ''amount'' @ '':'' @ quoted ''1.5'' @ '','' @
     quoted ''signature'' @ '':'' @ quoted ''x'' @ ''}''"

definition shadowing_details :: string where
  "shadowing_details =
     ''{'' @ quoted ''fee'' @ '':{'' @ quoted ''toString'' @ '':1}}''"

definition sample_parse :: "string \<Rightarrow> js_error + nat json" where
  "sample_parse s =
     (if s = ''null'' then Inr JNull
      else if s = sample_details
      then Inr (JObj [(''amount'', JStr ''1.5''), (''signature'', JStr ''x'')])
      else if s = shadowing_details
      then Inr (JObj [(''fee'', JObj [(''toString'', JNum 1)])])
      else Inl (SyntaxError ''Unexpected token''))"

definition sample_response :: "nat json" where
  "sample_response =
     JObj [(''choices'',
            JArr [JObj [(''message'',
                        JObj [(''content'', JStr ''This address is inactive.'')])]])]"

definition sample_platform :: "nat platform" where
  "sample_platform =
     \<lparr>JSON_parse = sample_parse,
      Number_toString = string_of_nat,
      axios_post = (\<lambda>request. Inr sample_response)\<rparr>"

definition failing_platform :: "nat platform" where
  "failing_platform =
     \<lparr>JSON_parse = sample_parse,
      Number_toString = string_of_nat,
      axios_post = (\<lambda>request. Inl (AxiosError ''Request failed with status code 500''))\<rparr>"

definition sample_server :: GrokAIServer where
  "sample_server = \<lparr>apiKey = ''xai-key''\<rparr>"

definition number_signature_args :: "string \<rightharpoonup> nat json" where
  "number_signature_args = [''signature'' \<mapsto> JNum 5, ''screenshot'' \<mapsto> JStr ''QUJD'']"

definition ask_empty_image_args :: "string \<rightharpoonup> nat json" where
  "ask_empty_image_args = [''question'' \<mapsto> JStr ''hi'', ''image'' \<mapsto> JStr []]"

definition ask_image_args :: "string \<rightharpoonup> nat json" where
  "ask_image_args =
     [''question'' \<mapsto> JStr ''hi'', ''context'' \<mapsto> JStr ''ctx'',
      ''image'' \<mapsto> JStr ''QUJD'', ''image_url'' \<mapsto> JStr ''https://example.com/a.png'']"

definition empty_image_with_url_args :: "string \<rightharpoonup> nat json" where
  "empty_image_with_url_args =
     [''prompt'' \<mapsto> JStr ''what is this'', ''image'' \<mapsto> JStr [],
      ''image_url'' \<mapsto> JStr ''https://example.com/a.png'']"

definition address_args_number_screenshot :: "string \<rightharpoonup> nat json" where
  "address_args_number_screenshot = [''address'' \<mapsto> JStr ''7xK'', ''screenshot'' \<mapsto> JNum 7]"

definition blank_options_args :: "string \<rightharpoonup> nat json" where
  "blank_options_args =
     [''signature'' \<mapsto> JStr ''5sig'', ''question'' \<mapsto> JStr ''hi'',
      ''screenshot'' \<mapsto> JStr [], ''details'' \<mapsto> JStr [], ''context'' \<mapsto> JStr [],
      ''image'' \<mapsto> JStr []]"

definition transaction_args_details :: "string \<Rightarrow> string \<rightharpoonup> nat json" where
  "transaction_args_details d = [''signature'' \<mapsto> JStr ''5sig'', ''details'' \<mapsto> JStr d]"

section \<open>Auxiliary facts\<close>

lemma string_field_JStr: "a k = Some (JStr s) \<Longrightarrow> string_field a k = Some s"
  by (simp add: string_field_def)

lemma string_field_remove_same: "string_field (a(k := None)) k = None"
  by (simp add: string_field_def)

lemma string_field_remove_other: "k' \<noteq> k \<Longrightarrow> string_field (a(k := v)) k' = string_field a k'"
  by (simp add: string_field_def)

lemma string_field_remove_non_string:
  "typeof (a k) \<noteq> ''string'' \<Longrightarrow> string_field (a(k := None)) = string_field a"
  by (rule ext) (simp add: string_field_def)

subsection \<open>The dispatcher, tool by tool\<close>

lemma CallTool_transaction:
  "CallTool P this \<lparr>name = ''analyze_transaction'', arguments = Some a\<rparr> =
     (case string_field a ''signature'' of
        None \<Rightarrow> (Inl (McpError InvalidParams ''Missing required signature parameter''), [])
      | Some s \<Rightarrow>
          map_prod Inr id (handleAnalyzeTransaction P this
            \<lparr>signature = s, tx_screenshot = string_field a ''screenshot'',
             details = string_field a ''details''\<rparr>))"
  by (simp add: CallTool_def)

lemma CallTool_address:
  "CallTool P this \<lparr>name = ''analyze_address'', arguments = Some a\<rparr> =
     (case string_field a ''address'' of
        None \<Rightarrow> (Inl (McpError InvalidParams ''Missing required address parameter''), [])
      | Some s \<Rightarrow>
          map_prod Inr id (handleAnalyzeAddress P this
            \<lparr>address = s, addr_screenshot = string_field a ''screenshot''\<rparr>))"
  by (simp add: CallTool_def)

lemma CallTool_image:
  "CallTool P this \<lparr>name = ''analyze_image'', arguments = Some a\<rparr> =
     (case string_field a ''prompt'' of
        None \<Rightarrow> (Inl (McpError InvalidParams ''Missing required prompt parameter''), [])
      | Some s \<Rightarrow>
          map_prod Inr id (handleAnalyzeImage P this
            \<lparr>img_image = string_field a ''image'',
             img_image_url = string_field a ''image_url'', prompt = s\<rparr>))"
  by (simp add: CallTool_def)

lemma CallTool_ask:
  "CallTool P this \<lparr>name = ''ask_grok'', arguments = Some a\<rparr> =
     (case string_field a ''question'' of
        None \<Rightarrow> (Inl (McpError InvalidParams ''Missing required question parameter''), [])
      | Some s \<Rightarrow>
          map_prod Inr id (handleAskGrok P this
            \<lparr>question = s, ask_context = string_field a ''context'',
             ask_image = string_field a ''image'',
             ask_image_url = string_field a ''image_url''\<rparr>))"
  by (simp add: CallTool_def)

lemma CallTool_unknown:
  "nm \<notin> {''analyze_transaction'', ''analyze_address'', ''analyze_image'', ''ask_grok''} \<Longrightarrow>
   CallTool P this \<lparr>name = nm, arguments = args\<rparr> =
     (Inl (McpError MethodNotFound (''Unknown tool: '' @ nm)), [])"
  by (simp add: CallTool_def)

subsection \<open>Handlers read optional fields through their truthiness\<close>

lemma screenshot_parts_present: "screenshot_parts (present x) = screenshot_parts x"
  by (cases x) simp_all

lemma parse_details_present: "parse_details P (present x) = parse_details P x"
  by (cases x) simp_all

lemma url_parts_present: "url_parts (present x) = url_parts x"
  by (cases x) simp_all

lemma image_parts_present: "image_parts (present x) (present y) = image_parts x y"
  by (cases x) (simp_all add: url_parts_present)

lemma question_text_present: "question_text (present x) q = question_text x q"
  by (cases x) simp_all

lemma truthy_present: "truthy (present x) = truthy x"
  by (cases x) simp_all

lemmas through_present =
  screenshot_parts_present parse_details_present image_parts_present
  question_text_present truthy_present

lemma transaction_present:
  "handleAnalyzeTransaction P this \<lparr>signature = s, tx_screenshot = present x, details = present d\<rparr> =
   handleAnalyzeTransaction P this \<lparr>signature = s, tx_screenshot = x, details = d\<rparr>"
  by (simp add: handleAnalyzeTransaction_def through_present Let_def cong: sum.case_cong)

lemma address_present:
  "handleAnalyzeAddress P this \<lparr>address = s, addr_screenshot = present x\<rparr> =
   handleAnalyzeAddress P this \<lparr>address = s, addr_screenshot = x\<rparr>"
  by (simp add: handleAnalyzeAddress_def through_present)

lemma image_present:
  "handleAnalyzeImage P this \<lparr>img_image = present i, img_image_url = present u, prompt = p\<rparr> =
   handleAnalyzeImage P this \<lparr>img_image = i, img_image_url = u, prompt = p\<rparr>"
  by (simp add: handleAnalyzeImage_def through_present)

lemma ask_present:
  "handleAskGrok P this
     \<lparr>question = q, ask_context = present c, ask_image = present i, ask_image_url = present u\<rparr> =
   handleAskGrok P this \<lparr>question = q, ask_context = c, ask_image = i, ask_image_url = u\<rparr>"
  by (simp add: handleAskGrok_def through_present)

lemma CallTool_cong:
  assumes req: "\<And>r. r \<in> {''signature'', ''address'', ''prompt'', ''question''} \<Longrightarrow>
                 string_field b r = string_field a r"
    and opt: "\<And>k. present (string_field b k) = present (string_field a k)"
  shows "CallTool P this \<lparr>name = nm, arguments = Some b\<rparr> =
         CallTool P this \<lparr>name = nm, arguments = Some a\<rparr>"
proof -
  consider (tx) "nm = ''analyze_transaction''" | (addr) "nm = ''analyze_address''"
    | (img) "nm = ''analyze_image''" | (ask) "nm = ''ask_grok''"
    | (unknown) "nm \<notin> {''analyze_transaction'', ''analyze_address'', ''analyze_image'', ''ask_grok''}"
    by blast
  then show ?thesis
  proof cases
    case tx
    have "handleAnalyzeTransaction P this
            \<lparr>signature = s, tx_screenshot = string_field b ''screenshot'',
             details = string_field b ''details''\<rparr> =
          handleAnalyzeTransaction P this
            \<lparr>signature = s, tx_screenshot = string_field a ''screenshot'',
             details = string_field a ''details''\<rparr>" for s
      using transaction_present [of P this s "string_field b ''screenshot''" "string_field b ''details''"]
        transaction_present [of P this s "string_field a ''screenshot''" "string_field a ''details''"]
      by (simp only: opt)
    moreover have "string_field b ''signature'' = string_field a ''signature''"
      by (rule req) simp
    ultimately show ?thesis
      by (simp only: tx CallTool_transaction)
  next
    case addr
    have "handleAnalyzeAddress P this
            \<lparr>address = s, addr_screenshot = string_field b ''screenshot''\<rparr> =
          handleAnalyzeAddress P this
            \<lparr>address = s, addr_screenshot = string_field a ''screenshot''\<rparr>" for s
      using address_present [of P this s "string_field b ''screenshot''"]
        address_present [of P this s "string_field a ''screenshot''"]
      by (simp only: opt)
    moreover have "string_field b ''address'' = string_field a ''address''"
      by (rule req) simp
    ultimately show ?thesis
      by (simp only: addr CallTool_address)
  next
    case img
    have "handleAnalyzeImage P this
            \<lparr>img_image = string_field b ''image'', img_image_url = string_field b ''image_url'',
             prompt = s\<rparr> =
          handleAnalyzeImage P this
            \<lparr>img_image = string_field a ''image'', img_image_url = string_field a ''image_url'',
             prompt = s\<rparr>" for s
      using image_present [of P this "string_field b ''image''" "string_field b ''image_url''" s]
        image_present [of P this "string_field a ''image''" "string_field a ''image_url''" s]
      by (simp only: opt)
    moreover have "string_field b ''prompt'' = string_field a ''prompt''"
      by (rule req) simp
    ultimately show ?thesis
      by (simp only: img CallTool_image)
  next
    case ask
    have "handleAskGrok P this
            \<lparr>question = s, ask_context = string_field b ''context'',
             ask_image = string_field b ''image'', ask_image_url = string_field b ''image_url''\<rparr> =
          handleAskGrok P this
            \<lparr>question = s, ask_context = string_field a ''context'',
             ask_image = string_field a ''image'', ask_image_url = string_field a ''image_url''\<rparr>" for s
      using ask_present [of P this s "string_field b ''context''" "string_field b ''image''"
          "string_field b ''image_url''"]
        ask_present [of P this s "string_field a ''context''" "string_field a ''image''"
          "string_field a ''image_url''"]
      by (simp only: opt)
    moreover have "string_field b ''question'' = string_field a ''question''"
      by (rule req) simp
    ultimately show ?thesis
      by (simp only: ask CallTool_ask)
  next
    case unknown
    then show ?thesis
      by (simp add: CallTool_unknown)
  qed
qed

subsection \<open>Validated calls\<close>

lemma call_transaction:
  "a ''signature'' = Some (JStr s) \<Longrightarrow>
   CallTool P this \<lparr>name = ''analyze_transaction'', arguments = Some a\<rparr> =
     map_prod Inr id (handleAnalyzeTransaction P this
        \<lparr>signature = s, tx_screenshot = string_field a ''screenshot'',
         details = string_field a ''details''\<rparr>)"
  by (simp add: CallTool_transaction string_field_JStr)

lemma call_address:
  "a ''address'' = Some (JStr s) \<Longrightarrow>
   CallTool P this \<lparr>name = ''analyze_address'', arguments = Some a\<rparr> =
     map_prod Inr id (handleAnalyzeAddress P this
        \<lparr>address = s, addr_screenshot = string_field a ''screenshot''\<rparr>)"
  by (simp add: CallTool_address string_field_JStr)

lemma call_image:
  "a ''prompt'' = Some (JStr s) \<Longrightarrow>
   CallTool P this \<lparr>name = ''analyze_image'', arguments = Some a\<rparr> =
     map_prod Inr id (handleAnalyzeImage P this
        \<lparr>img_image = string_field a ''image'', img_image_url = string_field a ''image_url'',
         prompt = s\<rparr>)"
  by (simp add: CallTool_image string_field_JStr)

lemma call_ask:
  "a ''question'' = Some (JStr s) \<Longrightarrow>
   CallTool P this \<lparr>name = ''ask_grok'', arguments = Some a\<rparr> =
     map_prod Inr id (handleAskGrok P this
        \<lparr>question = s, ask_context = string_field a ''context'',
         ask_image = string_field a ''image'', ask_image_url = string_field a ''image_url''\<rparr>)"
  by (simp add: CallTool_ask string_field_JStr)

lemma required_param_cases:
  assumes "required_param nm = Some k"
  obtains (tx) "nm = ''analyze_transaction''" "k = ''signature''"
    | (addr) "nm = ''analyze_address''" "k = ''address''"
    | (img) "nm = ''analyze_image''" "k = ''prompt''"
    | (ask) "nm = ''ask_grok''" "k = ''question''"
  using assms by (auto simp add: required_param_def split: if_splits)

lemma validated_call_returns:
  assumes "required_param nm = Some k" and "a k = Some (JStr s)"
  shows "\<exists>r. fst (CallTool P this \<lparr>name = nm, arguments = Some a\<rparr>) = Inr r"
  using assms(1)
proof (cases rule: required_param_cases)
  case tx
  with assms(2) show ?thesis by (simp add: call_transaction)
next
  case addr
  with assms(2) show ?thesis by (simp add: call_address)
next
  case img
  with assms(2) show ?thesis by (simp add: call_image)
next
  case ask
  with assms(2) show ?thesis by (simp add: call_ask)
qed

subsection \<open>What a handler sends\<close>

lemma snd_catch: "snd (catch prefix r) = snd r"
  by (simp add: catch_def)

lemma snd_post: "snd (post P this mdl msgs) = [chat_completion_request this mdl msgs]"
  by (simp add: post_def Let_def)

lemma model_request: "model (body (chat_completion_request this mdl msgs)) = mdl"
  by (simp add: chat_completion_request_def)

lemma user_parts_request:
  "user_parts (chat_completion_request this mdl
       [\<lparr>role = ''system'', content = plain sys\<rparr>, \<lparr>role = ''user'', content = parts ps\<rparr>]) = ps"
  by (simp add: chat_completion_request_def user_parts_def)

lemma sent_transaction:
  "snd (handleAnalyzeTransaction P this args) =
     (case transaction_prompt P (signature args) (parse_details P (details args)) of
        Inl e \<Rightarrow> []
      | Inr txt \<Rightarrow>
          [chat_completion_request this ''grok-2-vision-latest''
             [\<lparr>role = ''system'', content = plain transaction_system_prompt\<rparr>,
              \<lparr>role = ''user'',
               content = parts (text_part txt # screenshot_parts (tx_screenshot args))\<rparr>]])"
  by (simp add: handleAnalyzeTransaction_def snd_catch snd_post Let_def split: sum.split)

lemma sent_address:
  "snd (handleAnalyzeAddress P this args) =
     [chat_completion_request this ''grok-2-vision-latest''
        [\<lparr>role = ''system'', content = plain address_system_prompt\<rparr>,
         \<lparr>role = ''user'',
          content = parts (text_part (''Analyze this Solana address: '' @ address args) #
                           screenshot_parts (addr_screenshot args))\<rparr>]]"
  by (simp add: handleAnalyzeAddress_def snd_catch snd_post Let_def)

lemma sent_image:
  "snd (handleAnalyzeImage P this args) =
     [chat_completion_request this ''grok-2-vision-latest''
        [\<lparr>role = ''system'', content = plain image_system_prompt\<rparr>,
         \<lparr>role = ''user'',
          content = parts (image_parts (img_image args) (img_image_url args) @
                           [text_part (prompt args)])\<rparr>]]"
  by (simp add: handleAnalyzeImage_def snd_catch snd_post Let_def)

lemma sent_ask:
  "snd (handleAskGrok P this args) =
     [chat_completion_request this
        (if truthy (ask_image args) \<or> truthy (ask_image_url args)
         then ''grok-2-vision-latest'' else ''grok-2-latest'')
        [\<lparr>role = ''system'', content = plain ask_system_prompt\<rparr>,
         \<lparr>role = ''user'',
          content = parts (image_parts (ask_image args) (ask_image_url args) @
                           [text_part (question_text (ask_context args) (question args))])\<rparr>]]"
  by (simp add: handleAskGrok_def snd_catch snd_post Let_def)

lemma truthy_string_field: "truthy (string_field a k) = nonempty_string a k"
  by (cases "a k" rule: typeof.cases) (simp_all add: string_field_def nonempty_string_def)

lemma url_parts_images: "filter is_text (url_parts u) = []" "filter is_image (url_parts u) = url_parts u"
  by (cases u; simp)+

lemma image_parts_images:
  "filter is_text (image_parts i u) = []" "filter is_image (image_parts i u) = image_parts i u"
  by (cases i; simp add: url_parts_images image_jpeg_def)+

lemma screenshot_parts_images:
  "filter is_text (screenshot_parts x) = []" "filter is_image (screenshot_parts x) = screenshot_parts x"
  by (cases x; simp add: image_jpeg_def)+

subsection \<open>Requests issued by a call\<close>

lemma sent_call_transaction:
  "snd (CallTool P this \<lparr>name = ''analyze_transaction'', arguments = args\<rparr>) =
     (case args of
        None \<Rightarrow> []
      | Some a \<Rightarrow>
          (case string_field a ''signature'' of
             None \<Rightarrow> []
           | Some s \<Rightarrow>
               snd (handleAnalyzeTransaction P this
                      \<lparr>signature = s, tx_screenshot = string_field a ''screenshot'',
                       details = string_field a ''details''\<rparr>)))"
  by (simp add: CallTool_def split: option.split)

lemma sent_call_address:
  "snd (CallTool P this \<lparr>name = ''analyze_address'', arguments = args\<rparr>) =
     (case args of
        None \<Rightarrow> []
      | Some a \<Rightarrow>
          (case string_field a ''address'' of
             None \<Rightarrow> []
           | Some s \<Rightarrow>
               snd (handleAnalyzeAddress P this
                      \<lparr>address = s, addr_screenshot = string_field a ''screenshot''\<rparr>)))"
  by (simp add: CallTool_def split: option.split)

lemma sent_call_image:
  "snd (CallTool P this \<lparr>name = ''analyze_image'', arguments = args\<rparr>) =
     (case args of
        None \<Rightarrow> []
      | Some a \<Rightarrow>
          (case string_field a ''prompt'' of
             None \<Rightarrow> []
           | Some s \<Rightarrow>
               snd (handleAnalyzeImage P this
                      \<lparr>img_image = string_field a ''image'',
                       img_image_url = string_field a ''image_url'', prompt = s\<rparr>)))"
  by (simp add: CallTool_def split: option.split)

lemma sent_call_ask:
  "snd (CallTool P this \<lparr>name = ''ask_grok'', arguments = args\<rparr>) =
     (case args of
        None \<Rightarrow> []
      | Some a \<Rightarrow>
          (case string_field a ''question'' of
             None \<Rightarrow> []
           | Some s \<Rightarrow>
               snd (handleAskGrok P this
                      \<lparr>question = s, ask_context = string_field a ''context'',
                       ask_image = string_field a ''image'',
                       ask_image_url = string_field a ''image_url''\<rparr>)))"
  by (simp add: CallTool_def split: option.split)

lemma user_images_request:
  "user_images (chat_completion_request this mdl
       [\<lparr>role = ''system'', content = plain sys\<rparr>, \<lparr>role = ''user'', content = parts ps\<rparr>]) =
     filter is_image ps"
  by (simp add: user_images_def user_parts_request)

lemma user_text_request:
  "user_text (chat_completion_request this mdl
       [\<lparr>role = ''system'', content = plain sys\<rparr>, \<lparr>role = ''user'', content = parts ps\<rparr>]) =
     map part_text (filter is_text ps)"
  by (simp add: user_text_def user_parts_request)

subsection \<open>The transaction handler\<close>

lemma transaction_handler:
  "handleAnalyzeTransaction P this \<lparr>signature = s, tx_screenshot = x, details = d\<rparr> =
     catch ''Error analyzing transaction: ''
       (case transaction_prompt P s (parse_details P d) of
          Inl e \<Rightarrow> (Inl e, [])
        | Inr txt \<Rightarrow>
            post P this ''grok-2-vision-latest''
              [\<lparr>role = ''system'', content = plain transaction_system_prompt\<rparr>,
               \<lparr>role = ''user'', content = parts (text_part txt # screenshot_parts x)\<rparr>])"
  by (simp add: handleAnalyzeTransaction_def Let_def cong: sum.case_cong)

lemma transaction_prompt_no_details:
  "transaction_prompt P s (JObj []) =
     Inr (''Analyze this Solana transaction: '' @ s @ [CHR 0x0A, CHR 0x0A])"
  by (simp add: transaction_prompt_def Object_keys_def)

lemma transaction_prompt_null:
  "transaction_prompt P s JNull = Inl (TypeError ''Cannot convert undefined or null to object'')"
  by (simp add: transaction_prompt_def Object_keys_def)

lemma transaction_construction_failure:
  assumes "a ''signature'' = Some (JStr s)"
    and "transaction_prompt P s (parse_details P (string_field a ''details'')) = Inl e"
  shows "CallTool P this \<lparr>name = ''analyze_transaction'', arguments = Some a\<rparr> =
     (Inr \<lparr>result_content =
             [\<lparr>block_type = ''text'',
               block_text = Some (JStr (''Error analyzing transaction: '' @ message e))\<rparr>],
           isError = Some True\<rparr>, [])"
  using assms(2)
  by (simp add: call_transaction [where a = a and s = s, OF assms(1)] transaction_handler
      catch_def error_result_def)

section \<open>Model selection\<close>

lemma vision_model_transaction:
  "\<forall>req \<in> set (snd (CallTool P this \<lparr>name = ''analyze_transaction'', arguments = args\<rparr>)).
     model (body req) = ''grok-2-vision-latest''"
  by (auto simp add: sent_call_transaction sent_transaction model_request
      split: option.split sum.split)

lemma vision_model_address:
  "\<forall>req \<in> set (snd (CallTool P this \<lparr>name = ''analyze_address'', arguments = args\<rparr>)).
     model (body req) = ''grok-2-vision-latest''"
  by (auto simp add: sent_call_address sent_address model_request split: option.split)

lemma vision_model_image:
  "\<forall>req \<in> set (snd (CallTool P this \<lparr>name = ''analyze_image'', arguments = args\<rparr>)).
     model (body req) = ''grok-2-vision-latest''"
  by (auto simp add: sent_call_image sent_image model_request split: option.split)

lemma ask_model:
  assumes "a ''question'' = Some (JStr q)"
  shows "map (model \<circ> body) (snd (CallTool P this \<lparr>name = ''ask_grok'', arguments = Some a\<rparr>)) =
     [if nonempty_string a ''image'' \<or> nonempty_string a ''image_url''
      then ''grok-2-vision-latest'' else ''grok-2-latest'']"
  using assms
  by (simp add: call_ask sent_ask model_request truthy_string_field)

text \<open>
  Claim C1, as stated, fails: \<open>ask_grok\<close> tests \<open>image || image_url\<close> for truthiness,
  so an \<open>image\<close> supplied as the empty string (and no \<open>image_url\<close>) is a string argument
  and still selects the text-only model.
\<close>

theorem ask_grok_empty_image_counterexample:
  "ask_empty_image_args ''question'' = Some (JStr ''hi'') \<and>
   typeof (ask_empty_image_args ''image'') = ''string'' \<and>
   map (model \<circ> body)
     (snd (CallTool sample_platform sample_server
        \<lparr>name = ''ask_grok'', arguments = Some ask_empty_image_args\<rparr>)) =
     [''grok-2-latest'']"
proof -
  have q: "ask_empty_image_args ''question'' = Some (JStr ''hi'')"
    by (simp add: ask_empty_image_args_def)
  have "\<not> nonempty_string ask_empty_image_args ''image''"
    "\<not> nonempty_string ask_empty_image_args ''image_url''"
    by (simp_all add: ask_empty_image_args_def nonempty_string_def)
  with q show ?thesis
    by (simp add: ask_model) (simp add: ask_empty_image_args_def)
qed

text \<open>
  Claim C1, amended. A validated \<open>ask_grok\<close> call issues one request; its model is
  \<open>grok-2-vision-latest\<close> when \<open>image\<close> or \<open>image_url\<close> is a non-empty string and
  \<open>grok-2-latest\<close> otherwise. Every request issued by \<open>analyze_transaction\<close>,
  \<open>analyze_address\<close> or \<open>analyze_image\<close> uses \<open>grok-2-vision-latest\<close>.
\<close>

theorem model_selection:
  "(a ''question'' = Some (JStr q) \<longrightarrow>
      map (model \<circ> body)
        (snd (CallTool P this \<lparr>name = ''ask_grok'', arguments = Some a\<rparr>)) =
      [if nonempty_string a ''image'' \<or> nonempty_string a ''image_url''
       then ''grok-2-vision-latest'' else ''grok-2-latest'']) \<and>
   (nm \<in> {''analyze_transaction'', ''analyze_address'', ''analyze_image''} \<longrightarrow>
      (\<forall>req \<in> set (snd (CallTool P this \<lparr>name = nm, arguments = args\<rparr>)).
         model (body req) = ''grok-2-vision-latest''))"
proof (intro conjI impI)
  assume "a ''question'' = Some (JStr q)"
  then show "map (model \<circ> body)
        (snd (CallTool P this \<lparr>name = ''ask_grok'', arguments = Some a\<rparr>)) =
      [if nonempty_string a ''image'' \<or> nonempty_string a ''image_url''
       then ''grok-2-vision-latest'' else ''grok-2-latest'']"
    by (rule ask_model)
next
  assume "nm \<in> {''analyze_transaction'', ''analyze_address'', ''analyze_image''}"
  then consider "nm = ''analyze_transaction''" | "nm = ''analyze_address''"
    | "nm = ''analyze_image''" by blast
  then show "\<forall>req \<in> set (snd (CallTool P this \<lparr>name = nm, arguments = args\<rparr>)).
         model (body req) = ''grok-2-vision-latest''"
  proof cases
    case 1
    show ?thesis unfolding 1 by (rule vision_model_transaction)
  next
    case 2
    show ?thesis unfolding 2 by (rule vision_model_address)
  next
    case 3
    show ?thesis unfolding 3 by (rule vision_model_image)
  qed
qed

theorem model_selection_witness:
  "ask_image_args ''question'' = Some (JStr ''hi'') \<and>
   nonempty_string ask_image_args ''image'' \<and>
   map (model \<circ> body)
     (snd (CallTool sample_platform sample_server
        \<lparr>name = ''ask_grok'', arguments = Some ask_image_args\<rparr>)) =
     [''grok-2-vision-latest''] \<and>
   ''analyze_address'' \<in> {''analyze_transaction'', ''analyze_address'', ''analyze_image''} \<and>
   map (model \<circ> body)
     (snd (CallTool sample_platform sample_server
        \<lparr>name = ''analyze_address'', arguments = Some address_args_number_screenshot\<rparr>)) =
     [''grok-2-vision-latest'']"
proof -
  have q: "ask_image_args ''question'' = Some (JStr ''hi'')"
    by (simp add: ask_image_args_def)
  have i: "nonempty_string ask_image_args ''image''"
    by (simp add: ask_image_args_def nonempty_string_def)
  have n: "''analyze_address'' \<in> {''analyze_transaction'', ''analyze_address'', ''analyze_image''}"
    by simp
  have s: "address_args_number_screenshot ''address'' = Some (JStr ''7xK'')"
    by (simp add: address_args_number_screenshot_def)
  have sent: "\<exists>req. snd (CallTool sample_platform sample_server
        \<lparr>name = ''analyze_address'', arguments = Some address_args_number_screenshot\<rparr>) = [req]"
    by (simp add: call_address s sent_address)
  from model_selection [where a = ask_image_args and q = "''hi''" and P = sample_platform
      and this = sample_server and nm = "''analyze_address''"
      and args = "Some address_args_number_screenshot"] q i n sent
  show ?thesis by auto
qed

section \<open>Failures inside a handler\<close>

lemma catch_post:
  "catch prefix (post P this mdl msgs) =
     (case upstream P (chat_completion_request this mdl msgs) of
        Inr txt \<Rightarrow> success_result txt
      | Inl e \<Rightarrow> error_result prefix e,
      [chat_completion_request this mdl msgs])"
  by (simp add: catch_def post_def Let_def)

lemma catch_post_failures:
  "\<exists>r. fst (map_prod Inr id (catch prefix (post P this mdl msgs))) = Inr r \<and>
       (\<forall>req e. req \<in> set (snd (map_prod Inr id (catch prefix (post P this mdl msgs)))) \<and>
                upstream P req = Inl e \<longrightarrow> r = error_result prefix e)"
  by (simp add: catch_post)

lemma address_failures:
  assumes "a ''address'' = Some (JStr s)"
  shows "\<exists>r. fst (CallTool P this \<lparr>name = ''analyze_address'', arguments = Some a\<rparr>) = Inr r \<and>
     (\<forall>req e. req \<in> set (snd (CallTool P this
                   \<lparr>name = ''analyze_address'', arguments = Some a\<rparr>)) \<and>
              upstream P req = Inl e \<longrightarrow>
              r = error_result ''Error analyzing address: '' e)"
  unfolding call_address [where a = a and s = s, OF assms] handleAnalyzeAddress_def Let_def
  by (rule catch_post_failures)

lemma image_failures:
  assumes "a ''prompt'' = Some (JStr s)"
  shows "\<exists>r. fst (CallTool P this \<lparr>name = ''analyze_image'', arguments = Some a\<rparr>) = Inr r \<and>
     (\<forall>req e. req \<in> set (snd (CallTool P this
                   \<lparr>name = ''analyze_image'', arguments = Some a\<rparr>)) \<and>
              upstream P req = Inl e \<longrightarrow>
              r = error_result ''Error analyzing image: '' e)"
  unfolding call_image [where a = a and s = s, OF assms] handleAnalyzeImage_def Let_def
  by (rule catch_post_failures)

lemma ask_failures:
  assumes "a ''question'' = Some (JStr s)"
  shows "\<exists>r. fst (CallTool P this \<lparr>name = ''ask_grok'', arguments = Some a\<rparr>) = Inr r \<and>
     (\<forall>req e. req \<in> set (snd (CallTool P this
                   \<lparr>name = ''ask_grok'', arguments = Some a\<rparr>)) \<and>
              upstream P req = Inl e \<longrightarrow>
              r = error_result ''Error asking Grok: '' e)"
  unfolding call_ask [where a = a and s = s, OF assms] handleAskGrok_def Let_def
  by (rule catch_post_failures)

lemma transaction_failures:
  assumes "a ''signature'' = Some (JStr s)"
  shows "\<exists>r. fst (CallTool P this \<lparr>name = ''analyze_transaction'', arguments = Some a\<rparr>) = Inr r \<and>
     (\<forall>e. transaction_prompt P s (parse_details P (string_field a ''details'')) = Inl e \<longrightarrow>
          r = error_result ''Error analyzing transaction: '' e) \<and>
     (\<forall>req e. req \<in> set (snd (CallTool P this
                   \<lparr>name = ''analyze_transaction'', arguments = Some a\<rparr>)) \<and>
              upstream P req = Inl e \<longrightarrow>
              r = error_result ''Error analyzing transaction: '' e)"
proof (cases \<open>transaction_prompt P s (parse_details P (string_field a ''details''))\<close>)
  case (Inl e)
  then show ?thesis
    by (simp add: call_transaction [where a = a and s = s, OF assms] transaction_handler
        catch_def)
next
  case (Inr prompt_text)
  then show ?thesis
    by (simp add: call_transaction [where a = a and s = s, OF assms] transaction_handler
        catch_post)
qed

text \<open>
  Claim C2. A call that passes validation (the tool's required field is a string)
  never ends in a protocol error: the dispatcher returns a result \<open>r\<close>. When building the
  payload fails with error \<open>e\<close> (only \<open>analyze_transaction\<close> has steps that can throw,
  those of \<open>transaction_prompt\<close>), and when the upstream call for the issued request fails
  with \<open>e\<close> (\<open>axios.post\<close> throws, or the response lacks
  \<open>choices[0].message\<close>), \<open>r\<close> has \<open>isError: true\<close> and one text block, the tool's prefix
  followed by the message of \<open>e\<close>.
\<close>

theorem failures_are_returned:
  assumes "required_param nm = Some k" and "a k = Some (JStr s)"
  shows "\<exists>r. fst (CallTool P this \<lparr>name = nm, arguments = Some a\<rparr>) = Inr r \<and>
     (\<forall>e. nm = ''analyze_transaction'' \<and>
          transaction_prompt P s (parse_details P (string_field a ''details'')) = Inl e \<longrightarrow>
          r = \<lparr>result_content =
                 [\<lparr>block_type = ''text'',
                   block_text = Some (JStr (error_prefix nm @ message e))\<rparr>],
               isError = Some True\<rparr>) \<and>
     (\<forall>req e. req \<in> set (snd (CallTool P this \<lparr>name = nm, arguments = Some a\<rparr>)) \<and>
              upstream P req = Inl e \<longrightarrow>
          r = \<lparr>result_content =
                 [\<lparr>block_type = ''text'',
                   block_text = Some (JStr (error_prefix nm @ message e))\<rparr>],
               isError = Some True\<rparr>)"
  using assms(1)
proof (cases rule: required_param_cases)
  case tx
  with assms(2) transaction_failures [of a s P this] show ?thesis
    by (simp add: error_prefix_def error_result_def)
next
  case addr
  with assms(2) address_failures [of a s P this] show ?thesis
    by (simp add: error_prefix_def error_result_def)
next
  case img
  with assms(2) image_failures [of a s P this] show ?thesis
    by (simp add: error_prefix_def error_result_def)
next
  case ask
  with assms(2) ask_failures [of a s P this] show ?thesis
    by (simp add: error_prefix_def error_result_def)
qed

theorem failures_are_returned_witness:
  "required_param ''ask_grok'' = Some ''question'' \<and>
   ask_image_args ''question'' = Some (JStr ''hi'') \<and>
   map (upstream failing_platform)
     (snd (CallTool failing_platform sample_server
        \<lparr>name = ''ask_grok'', arguments = Some ask_image_args\<rparr>)) =
     [Inl (AxiosError ''Request failed with status code 500'')] \<and>
   fst (CallTool failing_platform sample_server
        \<lparr>name = ''ask_grok'', arguments = Some ask_image_args\<rparr>) =
     Inr \<lparr>result_content =
            [\<lparr>block_type = ''text'',
              block_text = Some (JStr ''Error asking Grok: Request failed with status code 500'')\<rparr>],
          isError = Some True\<rparr> \<and>
   required_param ''analyze_transaction'' = Some ''signature'' \<and>
   transaction_args_details ''null'' ''signature'' = Some (JStr ''5sig'') \<and>
   transaction_prompt sample_platform ''5sig''
     (parse_details sample_platform
        (string_field (transaction_args_details ''null'') ''details'')) =
     Inl (TypeError ''Cannot convert undefined or null to object'') \<and>
   fst (CallTool sample_platform sample_server
        \<lparr>name = ''analyze_transaction'', arguments = Some (transaction_args_details ''null'')\<rparr>) =
     Inr \<lparr>result_content =
            [\<lparr>block_type = ''text'',
              block_text = Some (JStr
                ''Error analyzing transaction: Cannot convert undefined or null to object'')\<rparr>],
          isError = Some True\<rparr>"
proof -
  have k: "required_param ''ask_grok'' = Some ''question''"
    and k': "required_param ''analyze_transaction'' = Some ''signature''"
    by (simp_all add: required_param_def)
  have q: "ask_image_args ''question'' = Some (JStr ''hi'')"
    by (simp add: ask_image_args_def)
  have s: "transaction_args_details ''null'' ''signature'' = Some (JStr ''5sig'')"
    by (simp add: transaction_args_details_def)
  have down: "upstream failing_platform req =
      Inl (AxiosError ''Request failed with status code 500'')" for req
    by (simp add: upstream_def failing_platform_def)
  have one: "\<exists>req. snd (CallTool failing_platform sample_server
        \<lparr>name = ''ask_grok'', arguments = Some ask_image_args\<rparr>) = [req]"
    by (simp add: call_ask [where a = ask_image_args and s = "''hi''", OF q] sent_ask)
  then have sent: "map (upstream failing_platform)
     (snd (CallTool failing_platform sample_server
        \<lparr>name = ''ask_grok'', arguments = Some ask_image_args\<rparr>)) =
     [Inl (AxiosError ''Request failed with status code 500'')]"
    by (auto simp add: down)
  have asked: "fst (CallTool failing_platform sample_server
        \<lparr>name = ''ask_grok'', arguments = Some ask_image_args\<rparr>) =
     Inr \<lparr>result_content =
            [\<lparr>block_type = ''text'',
              block_text = Some (JStr ''Error asking Grok: Request failed with status code 500'')\<rparr>],
          isError = Some True\<rparr>"
    using failures_are_returned [where nm = "''ask_grok''" and a = ask_image_args
        and P = failing_platform and this = sample_server, OF k q] one
    by (auto simp add: down error_prefix_def)
  have "string_field (transaction_args_details ''null'') ''details'' = Some ''null''"
    by (simp add: transaction_args_details_def string_field_def)
  then have "parse_details sample_platform
      (string_field (transaction_args_details ''null'') ''details'') = JNull"
    by (simp add: sample_platform_def sample_parse_def)
  then have null: "transaction_prompt sample_platform ''5sig''
     (parse_details sample_platform
        (string_field (transaction_args_details ''null'') ''details'')) =
     Inl (TypeError ''Cannot convert undefined or null to object'')"
    by (simp only: transaction_prompt_null)
  have analysed: "fst (CallTool sample_platform sample_server
        \<lparr>name = ''analyze_transaction'', arguments = Some (transaction_args_details ''null'')\<rparr>) =
     Inr \<lparr>result_content =
            [\<lparr>block_type = ''text'',
              block_text = Some (JStr
                ''Error analyzing transaction: Cannot convert undefined or null to object'')\<rparr>],
          isError = Some True\<rparr>"
    using failures_are_returned [where nm = "''analyze_transaction''"
        and a = "transaction_args_details ''null''" and P = sample_platform
        and this = sample_server, OF k' s] null
    by (auto simp add: error_prefix_def)
  show ?thesis
    by (intro conjI k q sent asked k' s null analysed)
qed

section \<open>The dispatcher's protocol errors\<close>

text \<open>
  Claim C3. A call whose tool name is none of \<open>analyze_transaction\<close>, \<open>analyze_address\<close>,
  \<open>analyze_image\<close> and \<open>ask_grok\<close> makes the dispatcher throw an \<open>McpError\<close> with code
  \<open>MethodNotFound\<close> and message \<open>Unknown tool: <name>\<close>, whatever the arguments are,
  and no HTTP request has been issued.
\<close>

theorem unknown_tool:
  assumes "nm \<notin> {''analyze_transaction'', ''analyze_address'', ''analyze_image'', ''ask_grok''}"
  shows "CallTool P this \<lparr>name = nm, arguments = args\<rparr> =
           (Inl (McpError MethodNotFound (''Unknown tool: '' @ nm)), [])"
  using assms by (simp add: CallTool_def)

theorem unknown_tool_witness:
  "''delete_wallet'' \<notin> {''analyze_transaction'', ''analyze_address'', ''analyze_image'', ''ask_grok''} \<and>
   CallTool sample_platform sample_server
       \<lparr>name = ''delete_wallet'', arguments = Some number_signature_args\<rparr> =
     (Inl (McpError MethodNotFound ''Unknown tool: delete_wallet''), [])"
  using unknown_tool [of "''delete_wallet''" sample_platform sample_server
      "Some number_signature_args"]
  by simp

text \<open>
  Claim C4. For each of the four tools, when the arguments are absent or the tool's
  required field (\<open>signature\<close>, \<open>address\<close>, \<open>prompt\<close>, \<open>question\<close>) is missing or not a
  string, the dispatcher throws an \<open>McpError\<close> with code \<open>InvalidParams\<close> whose message
  names the field, and no HTTP request has been issued.
\<close>

theorem missing_required_field:
  assumes "required_param nm = Some k"
    and "args = None \<or> (\<exists>a. args = Some a \<and> typeof (a k) \<noteq> ''string'')"
  shows "CallTool P this \<lparr>name = nm, arguments = args\<rparr> =
           (Inl (McpError InvalidParams (''Missing required '' @ k @ '' parameter'')), [])"
  using assms
  by (auto simp add: CallTool_def required_param_def string_field_def split: if_splits)

theorem missing_required_field_witness:
  "required_param ''analyze_transaction'' = Some ''signature'' \<and>
   typeof (number_signature_args ''signature'') \<noteq> ''string'' \<and>
   CallTool sample_platform sample_server
       \<lparr>name = ''analyze_transaction'', arguments = Some number_signature_args\<rparr> =
     (Inl (McpError InvalidParams ''Missing required signature parameter''), [])"
proof -
  have k: "required_param ''analyze_transaction'' = Some ''signature''"
    by (simp add: required_param_def)
  have t: "typeof (number_signature_args ''signature'') \<noteq> ''string''"
    by (simp add: number_signature_args_def)
  then have "Some number_signature_args = None \<or>
      (\<exists>a. Some number_signature_args = Some a \<and> typeof (a ''signature'') \<noteq> ''string'')"
    by simp
  from missing_required_field [OF k this, of sample_platform sample_server] k t
  show ?thesis by simp
qed

section \<open>Optional fields\<close>

text \<open>
  Claim C5. When one of the optional fields \<open>screenshot\<close>, \<open>details\<close>, \<open>image\<close>,
  \<open>image_url\<close>, \<open>context\<close> is present with a value that is not a string, the call has
  the same outcome (the same result or protocol error, and the same issued requests,
  hence the same ChatRequest) as the call with that field removed; and the call is not
  rejected: when the tool's required field is a string, the dispatcher returns a result.
\<close>

theorem non_string_optional_is_omitted:
  assumes "k \<in> {''screenshot'', ''details'', ''image'', ''image_url'', ''context''}"
    and "a k = Some v" and "typeof (Some v) \<noteq> ''string''"
  shows "CallTool P this \<lparr>name = nm, arguments = Some a\<rparr> =
           CallTool P this \<lparr>name = nm, arguments = Some (a(k := None))\<rparr> \<and>
         (\<forall>r s. required_param nm = Some r \<and> a r = Some (JStr s) \<longrightarrow>
            (\<exists>res. fst (CallTool P this \<lparr>name = nm, arguments = Some a\<rparr>) = Inr res))"
proof -
  from assms have "string_field (a(k := None)) = string_field a"
    by (simp add: string_field_remove_non_string)
  then have "CallTool P this \<lparr>name = nm, arguments = Some (a(k := None))\<rparr> =
      CallTool P this \<lparr>name = nm, arguments = Some a\<rparr>"
    by (intro CallTool_cong) simp_all
  then show ?thesis
    by (auto dest: validated_call_returns)
qed

theorem non_string_optional_is_omitted_witness:
  "''screenshot'' \<in> {''screenshot'', ''details'', ''image'', ''image_url'', ''context''} \<and>
   address_args_number_screenshot ''screenshot'' = Some (JNum 7) \<and>
   typeof (Some (JNum 7 :: nat json)) \<noteq> ''string'' \<and>
   required_param ''analyze_address'' = Some ''address'' \<and>
   address_args_number_screenshot ''address'' = Some (JStr ''7xK'') \<and>
   CallTool sample_platform sample_server
       \<lparr>name = ''analyze_address'', arguments = Some address_args_number_screenshot\<rparr> =
     CallTool sample_platform sample_server
       \<lparr>name = ''analyze_address'',
        arguments = Some (address_args_number_screenshot(''screenshot'' := None))\<rparr> \<and>
   map user_parts (snd (CallTool sample_platform sample_server
       \<lparr>name = ''analyze_address'', arguments = Some address_args_number_screenshot\<rparr>)) =
     [[text_part ''Analyze this Solana address: 7xK'']]"
proof -
  have k: "''screenshot'' \<in> {''screenshot'', ''details'', ''image'', ''image_url'', ''context''}"
    by simp
  have v: "address_args_number_screenshot ''screenshot'' = Some (JNum 7)"
    by (simp add: address_args_number_screenshot_def)
  have t: "typeof (Some (JNum 7 :: nat json)) \<noteq> ''string''"
    by simp
  have r: "required_param ''analyze_address'' = Some ''address''"
    by (simp add: required_param_def)
  have s: "address_args_number_screenshot ''address'' = Some (JStr ''7xK'')"
    by (simp add: address_args_number_screenshot_def)
  have sent: "map user_parts (snd (CallTool sample_platform sample_server
       \<lparr>name = ''analyze_address'', arguments = Some address_args_number_screenshot\<rparr>)) =
     [[text_part ''Analyze this Solana address: 7xK'']]"
    by (simp add: call_address s sent_address user_parts_request string_field_def v)
  from non_string_optional_is_omitted [where k = "''screenshot''"
      and a = address_args_number_screenshot and v = "JNum 7" and P = sample_platform
      and this = sample_server and nm = "''analyze_address''"] k v t r s sent
  show ?thesis by simp
qed

section \<open>The details of a transaction\<close>

lemma parse_details_failure:
  "JSON_parse P d = Inl e \<Longrightarrow> parse_details P (Some d) = JObj []"
  by simp

lemma transaction_handler_unparseable:
  "JSON_parse P d = Inl e \<Longrightarrow>
   handleAnalyzeTransaction P this \<lparr>signature = s, tx_screenshot = x, details = Some d\<rparr> =
   handleAnalyzeTransaction P this \<lparr>signature = s, tx_screenshot = x, details = None\<rparr>"
  by (simp add: transaction_handler)

text \<open>
  Claim C6. When \<open>JSON.parse\<close> throws on the \<open>details\<close> string of a validated
  \<open>analyze_transaction\<close> call, the call goes on with the empty object: its outcome is that
  of the call with \<open>details\<close> removed, and the request is issued, its user content being
  the line naming the signature followed by the screenshot part, if any.
\<close>

theorem unparseable_details_are_omitted:
  assumes "a ''signature'' = Some (JStr s)" and "a ''details'' = Some (JStr d)"
    and "JSON_parse P d = Inl e"
  shows "CallTool P this \<lparr>name = ''analyze_transaction'', arguments = Some a\<rparr> =
           CallTool P this
             \<lparr>name = ''analyze_transaction'', arguments = Some (a(''details'' := None))\<rparr> \<and>
         map user_parts
           (snd (CallTool P this \<lparr>name = ''analyze_transaction'', arguments = Some a\<rparr>)) =
           [text_part (''Analyze this Solana transaction: '' @ s @ [CHR 0x0A, CHR 0x0A]) #
            screenshot_parts (string_field a ''screenshot'')]"
proof -
  let ?b = "a(''details'' := None)"
  have d: "string_field a ''details'' = Some d"
    using assms(2) by (rule string_field_JStr)
  have b: "?b ''signature'' = Some (JStr s)" "string_field ?b ''details'' = None"
    "string_field ?b ''screenshot'' = string_field a ''screenshot''"
    using assms(1) by (simp_all add: string_field_def)
  have "CallTool P this \<lparr>name = ''analyze_transaction'', arguments = Some a\<rparr> =
      CallTool P this \<lparr>name = ''analyze_transaction'', arguments = Some ?b\<rparr>"
    using d b(2,3) transaction_handler_unparseable [OF assms(3)]
    by (simp add: call_transaction [where a = a and s = s, OF assms(1)]
        call_transaction [where a = ?b and s = s, OF b(1)])
  moreover have "map user_parts
      (snd (CallTool P this \<lparr>name = ''analyze_transaction'', arguments = Some a\<rparr>)) =
      [text_part (''Analyze this Solana transaction: '' @ s @ [CHR 0x0A, CHR 0x0A]) #
       screenshot_parts (string_field a ''screenshot'')]"
    using d parse_details_failure [OF assms(3)]
    by (simp add: call_transaction [where a = a and s = s, OF assms(1)] sent_transaction
        transaction_prompt_no_details user_parts_request del: parse_details.simps)
  ultimately show ?thesis by (rule conjI)
qed

theorem unparseable_details_are_omitted_witness:
  "transaction_args_details ''not json'' ''signature'' = Some (JStr ''5sig'') \<and>
   transaction_args_details ''not json'' ''details'' = Some (JStr ''not json'') \<and>
   JSON_parse sample_platform ''not json'' = Inl (SyntaxError ''Unexpected token'') \<and>
   CallTool sample_platform sample_server
       \<lparr>name = ''analyze_transaction'', arguments = Some (transaction_args_details ''not json'')\<rparr> =
     CallTool sample_platform sample_server
       \<lparr>name = ''analyze_transaction'',
        arguments = Some ((transaction_args_details ''not json'')(''details'' := None))\<rparr> \<and>
   map user_parts (snd (CallTool sample_platform sample_server
       \<lparr>name = ''analyze_transaction'', arguments = Some (transaction_args_details ''not json'')\<rparr>)) =
     [[text_part (''Analyze this Solana transaction: 5sig'' @ [CHR 0x0A, CHR 0x0A])]]"
proof -
  have s: "transaction_args_details ''not json'' ''signature'' = Some (JStr ''5sig'')"
    and d: "transaction_args_details ''not json'' ''details'' = Some (JStr ''not json'')"
    and x: "string_field (transaction_args_details ''not json'') ''screenshot'' = None"
    by (simp_all add: transaction_args_details_def string_field_def)
  have p: "JSON_parse sample_platform ''not json'' = Inl (SyntaxError ''Unexpected token'')"
    by (simp add: sample_platform_def sample_parse_def sample_details_def
        shadowing_details_def quoted_def)
  note call = unparseable_details_are_omitted [where a = "transaction_args_details ''not json''"
      and P = sample_platform and this = sample_server, OF s d p]
  have sent: "map user_parts (snd (CallTool sample_platform sample_server
       \<lparr>name = ''analyze_transaction'', arguments = Some (transaction_args_details ''not json'')\<rparr>)) =
     [[text_part (''Analyze this Solana transaction: 5sig'' @ [CHR 0x0A, CHR 0x0A])]]"
    using call [THEN conjunct2] x by simp
  show ?thesis
    by (intro conjI s d p sent call [THEN conjunct1])
qed

lemma details_loop_rendered:
  "map (\<lambda>kv. ToString num (snd kv)) (filter (\<lambda>kv. fst kv \<noteq> ''signature'') kvs) = map Inr strs \<Longrightarrow>
   details_loop num acc kvs =
     Inr (acc @ concat (map2 detail_line
            (map fst (filter (\<lambda>kv. fst kv \<noteq> ''signature'') kvs)) strs))"
proof (induction kvs arbitrary: acc strs)
  case Nil
  then show ?case by simp
next
  case (Cons kv kvs)
  obtain key v where kv: "kv = (key, v)" by (cases kv)
  show ?case
  proof (cases "key = ''signature''")
    case True
    with Cons kv show ?thesis by simp
  next
    case False
    with Cons.prems kv obtain s rest where strs: "strs = s # rest"
      and s: "ToString num v = Inr s"
      and rest: "map (\<lambda>kv. ToString num (snd kv))
          (filter (\<lambda>kv. fst kv \<noteq> ''signature'') kvs) = map Inr rest"
      by (cases strs) auto
    from Cons.IH [OF rest] False kv strs s show ?thesis by simp
  qed
qed

lemma transaction_prompt_object:
  assumes "kvs \<noteq> []"
  shows "transaction_prompt P s (JObj kvs) =
     details_loop (Number_toString P)
       (''Analyze this Solana transaction: '' @ s @ [CHR 0x0A, CHR 0x0A] @
        ''Additional details:'' @ [CHR 0x0A]) kvs"
  using assms by (simp add: transaction_prompt_def Object_keys_def)

text \<open>
  Claim C7, as stated, fails: \<open>`- ${key}: ${value}\n`\<close> converts the value to a string,
  and the conversion throws for an object that has an own property \<open>toString\<close> (which
  shadows \<open>Object.prototype.toString\<close> with a value that cannot be called). For the
  details \<open>{"fee":{"toString":1}}\<close>, an object with one key, no user text is built: the
  handler catches the TypeError, issues no request and returns an error result.
\<close>

theorem shadowed_toString_counterexample:
  "transaction_args_details shadowing_details ''signature'' = Some (JStr ''5sig'') \<and>
   transaction_args_details shadowing_details ''details'' = Some (JStr shadowing_details) \<and>
   JSON_parse sample_platform shadowing_details =
     Inr (JObj [(''fee'', JObj [(''toString'', JNum 1)])]) \<and>
   CallTool sample_platform sample_server
       \<lparr>name = ''analyze_transaction'',
        arguments = Some (transaction_args_details shadowing_details)\<rparr> =
     (Inr \<lparr>result_content =
             [\<lparr>block_type = ''text'',
               block_text = Some (JStr
                 ''Error analyzing transaction: Cannot convert object to primitive value'')\<rparr>],
           isError = Some True\<rparr>, [])"
proof -
  have s: "transaction_args_details shadowing_details ''signature'' = Some (JStr ''5sig'')"
    and d: "transaction_args_details shadowing_details ''details'' = Some (JStr shadowing_details)"
    by (simp_all add: transaction_args_details_def)
  have n: "shadowing_details \<noteq> []"
    by (simp add: shadowing_details_def)
  have p: "JSON_parse sample_platform shadowing_details =
     Inr (JObj [(''fee'', JObj [(''toString'', JNum 1)])])"
    by (simp add: sample_platform_def sample_parse_def sample_details_def shadowing_details_def
        quoted_def)
  have "string_field (transaction_args_details shadowing_details) ''details'' =
      Some shadowing_details"
    using d by (rule string_field_JStr)
  with n p have "parse_details sample_platform
      (string_field (transaction_args_details shadowing_details) ''details'') =
      JObj [(''fee'', JObj [(''toString'', JNum 1)])]"
    by simp
  then have "transaction_prompt sample_platform ''5sig''
      (parse_details sample_platform
         (string_field (transaction_args_details shadowing_details) ''details'')) =
      Inl (TypeError ''Cannot convert object to primitive value'')"
    by (simp add: transaction_prompt_object)
  from transaction_construction_failure [OF s this, of sample_server]
  have "CallTool sample_platform sample_server
       \<lparr>name = ''analyze_transaction'',
        arguments = Some (transaction_args_details shadowing_details)\<rparr> =
     (Inr \<lparr>result_content =
             [\<lparr>block_type = ''text'',
               block_text = Some (JStr
                 ''Error analyzing transaction: Cannot convert object to primitive value'')\<rparr>],
           isError = Some True\<rparr>, [])"
    by simp
  then show ?thesis
    by (intro conjI s d p)
qed

text \<open>
  Claim C7, amended. For a validated \<open>analyze_transaction\<close> call whose non-empty
  \<open>details\<close> parses to an object with at least one key, and in which the value under
  every key other than \<open>signature\<close> converts to a string (the strings \<open>strs\<close>, in key
  order), one request is issued and its user text is the line naming the signature, an
  empty line, the line \<open>Additional details:\<close> and then one line \<open>- key: value\<close> per key
  other than \<open>signature\<close>, in the order \<open>Object.entries\<close> lists the keys. (\<open>JSON.parse\<close>
  throws on the empty string, so a text that parses to an object is never empty.)
\<close>

theorem details_lines_rendered:
  assumes "a ''signature'' = Some (JStr s)" and "a ''details'' = Some (JStr d)"
    and "d \<noteq> []" and "JSON_parse P d = Inr (JObj kvs)" and "kvs \<noteq> []"
    and "map (\<lambda>kv. ToString (Number_toString P) (snd kv))
           (filter (\<lambda>kv. fst kv \<noteq> ''signature'') kvs) = map Inr strs"
  shows "map user_text
           (snd (CallTool P this \<lparr>name = ''analyze_transaction'', arguments = Some a\<rparr>)) =
         [[''Analyze this Solana transaction: '' @ s @ [CHR 0x0A, CHR 0x0A] @
           ''Additional details:'' @ [CHR 0x0A] @
           concat (map2 detail_line
                     (map fst (filter (\<lambda>kv. fst kv \<noteq> ''signature'') kvs)) strs)]]"
proof -
  have "string_field a ''details'' = Some d"
    using assms(2) by (rule string_field_JStr)
  with assms(3,4) have "parse_details P (string_field a ''details'') = JObj kvs"
    by simp
  moreover have "transaction_prompt P s (JObj kvs) =
      Inr ((''Analyze this Solana transaction: '' @ s @ [CHR 0x0A, CHR 0x0A] @
            ''Additional details:'' @ [CHR 0x0A]) @
           concat (map2 detail_line
                     (map fst (filter (\<lambda>kv. fst kv \<noteq> ''signature'') kvs)) strs))"
    by (simp only: transaction_prompt_object [OF assms(5)] details_loop_rendered [OF assms(6)])
  ultimately show ?thesis
    by (simp add: call_transaction [where a = a and s = s, OF assms(1)] sent_transaction
        user_text_request screenshot_parts_images)
qed

theorem details_lines_rendered_witness:
  "transaction_args_details sample_details ''signature'' = Some (JStr ''5sig'') \<and>
   transaction_args_details sample_details ''details'' = Some (JStr sample_details) \<and>
   sample_details \<noteq> [] \<and>
   JSON_parse sample_platform sample_details =
     Inr (JObj [(''amount'', JStr ''1.5''), (''signature'', JStr ''x'')]) \<and>
   [(''amount'', JStr ''1.5''), (''signature'', JStr ''x'')] \<noteq> ([] :: (string \<times> nat json) list) \<and>
   map (\<lambda>kv. ToString (Number_toString sample_platform) (snd kv))
     (filter (\<lambda>kv. fst kv \<noteq> ''signature'')
        [(''amount'', JStr ''1.5''), (''signature'', JStr ''x'')]) = map Inr [''1.5''] \<and>
   map user_text (snd (CallTool sample_platform sample_server
       \<lparr>name = ''analyze_transaction'',
        arguments = Some (transaction_args_details sample_details)\<rparr>)) =
     [[''Analyze this Solana transaction: 5sig'' @ [CHR 0x0A, CHR 0x0A] @
       ''Additional details:'' @ [CHR 0x0A] @ ''- amount: 1.5'' @ [CHR 0x0A]]]"
proof -
  have s: "transaction_args_details sample_details ''signature'' = Some (JStr ''5sig'')"
    and d: "transaction_args_details sample_details ''details'' = Some (JStr sample_details)"
    by (simp_all add: transaction_args_details_def)
  have n: "sample_details \<noteq> []"
    by (simp add: sample_details_def)
  have p: "JSON_parse sample_platform sample_details =
     Inr (JObj [(''amount'', JStr ''1.5''), (''signature'', JStr ''x'')])"
    by (simp add: sample_platform_def sample_parse_def sample_details_def quoted_def)
  have k: "[(''amount'', JStr ''1.5''), (''signature'', JStr ''x'')] \<noteq> ([] :: (string \<times> nat json) list)"
    by simp
  have c: "map (\<lambda>kv. ToString (Number_toString sample_platform) (snd kv))
     (filter (\<lambda>kv. fst kv \<noteq> ''signature'')
        [(''amount'', JStr ''1.5''), (''signature'', JStr ''x'')]) = map Inr [''1.5'']"
    by simp
  have "map user_text (snd (CallTool sample_platform sample_server
       \<lparr>name = ''analyze_transaction'',
        arguments = Some (transaction_args_details sample_details)\<rparr>)) =
     [[''Analyze this Solana transaction: 5sig'' @ [CHR 0x0A, CHR 0x0A] @
       ''Additional details:'' @ [CHR 0x0A] @ ''- amount: 1.5'' @ [CHR 0x0A]]]"
    using details_lines_rendered [where a = "transaction_args_details sample_details"
        and P = sample_platform and this = sample_server, OF s d n p k c]
    by (simp add: detail_line_def)
  then show ?thesis
    by (intro conjI s d n p k c)
qed

section \<open>Base64 image and image URL\<close>

lemma image_parts_base64: "i \<noteq> [] \<Longrightarrow> image_parts (Some i) u = [image_jpeg i]"
  by simp

lemma image_handler_ignores_url:
  "i \<noteq> [] \<Longrightarrow>
   handleAnalyzeImage P this \<lparr>img_image = Some i, img_image_url = u, prompt = p\<rparr> =
   handleAnalyzeImage P this \<lparr>img_image = Some i, img_image_url = None, prompt = p\<rparr>"
  by (simp add: handleAnalyzeImage_def)

lemma ask_handler_ignores_url:
  "i \<noteq> [] \<Longrightarrow>
   handleAskGrok P this \<lparr>question = q, ask_context = c, ask_image = Some i, ask_image_url = u\<rparr> =
   handleAskGrok P this \<lparr>question = q, ask_context = c, ask_image = Some i, ask_image_url = None\<rparr>"
  by (simp add: handleAskGrok_def)

lemma image_call_base64:
  assumes "a ''prompt'' = Some (JStr t)" and "a ''image'' = Some (JStr i)" and "i \<noteq> []"
  shows "map user_parts (snd (CallTool P this \<lparr>name = ''analyze_image'', arguments = Some a\<rparr>)) =
           [[image_url_part (''data:image/jpeg;base64,'' @ i) ''high'', text_part t]]"
    and "CallTool P this \<lparr>name = ''analyze_image'', arguments = Some a\<rparr> =
         CallTool P this \<lparr>name = ''analyze_image'', arguments = Some (a(''image_url'' := None))\<rparr>"
proof -
  have i: "string_field a ''image'' = Some i"
    using assms(2) by (rule string_field_JStr)
  show "map user_parts (snd (CallTool P this \<lparr>name = ''analyze_image'', arguments = Some a\<rparr>)) =
           [[image_url_part (''data:image/jpeg;base64,'' @ i) ''high'', text_part t]]"
    using assms(1,3) i
    by (simp add: call_image sent_image user_parts_request image_jpeg_def)
  have "a(''image_url'' := None) = b \<Longrightarrow> b ''prompt'' = Some (JStr t) \<and> string_field b ''image'' = Some i
      \<and> string_field b ''image_url'' = None" for b
    using assms(1,2) by (auto simp add: string_field_def)
  then show "CallTool P this \<lparr>name = ''analyze_image'', arguments = Some a\<rparr> =
         CallTool P this \<lparr>name = ''analyze_image'', arguments = Some (a(''image_url'' := None))\<rparr>"
    using assms(1,3) i image_handler_ignores_url [OF assms(3), of P this "string_field a ''image_url''" t]
    by (simp add: call_image)
qed

lemma ask_call_base64:
  assumes "a ''question'' = Some (JStr t)" and "a ''image'' = Some (JStr i)" and "i \<noteq> []"
  shows "map user_parts (snd (CallTool P this \<lparr>name = ''ask_grok'', arguments = Some a\<rparr>)) =
           [[image_url_part (''data:image/jpeg;base64,'' @ i) ''high'',
             text_part (question_text (string_field a ''context'') t)]]"
    and "CallTool P this \<lparr>name = ''ask_grok'', arguments = Some a\<rparr> =
         CallTool P this \<lparr>name = ''ask_grok'', arguments = Some (a(''image_url'' := None))\<rparr>"
proof -
  have i: "string_field a ''image'' = Some i"
    using assms(2) by (rule string_field_JStr)
  show "map user_parts (snd (CallTool P this \<lparr>name = ''ask_grok'', arguments = Some a\<rparr>)) =
           [[image_url_part (''data:image/jpeg;base64,'' @ i) ''high'',
             text_part (question_text (string_field a ''context'') t)]]"
    using assms(1,3) i
    by (simp add: call_ask sent_ask user_parts_request image_jpeg_def)
  have "a(''image_url'' := None) = b \<Longrightarrow> b ''question'' = Some (JStr t) \<and> string_field b ''image'' = Some i
      \<and> string_field b ''image_url'' = None \<and> string_field b ''context'' = string_field a ''context''" for b
    using assms(1,2) by (auto simp add: string_field_def)
  then show "CallTool P this \<lparr>name = ''ask_grok'', arguments = Some a\<rparr> =
         CallTool P this \<lparr>name = ''ask_grok'', arguments = Some (a(''image_url'' := None))\<rparr>"
    using assms(1,3) i
      ask_handler_ignores_url [OF assms(3), of P this t "string_field a ''context''"
        "string_field a ''image_url''"]
    by (simp add: call_ask)
qed

text \<open>
  Claim C8, as stated, fails: the handlers test \<open>if (image) ... else if (image_url)\<close>,
  so when \<open>image\<close> is supplied as the empty string beside a non-empty \<open>image_url\<close> the
  one image part is built from \<open>image_url\<close>, not from \<open>image\<close>.
\<close>

theorem empty_image_uses_url_counterexample:
  "empty_image_with_url_args ''prompt'' = Some (JStr ''what is this'') \<and>
   empty_image_with_url_args ''image'' = Some (JStr []) \<and>
   empty_image_with_url_args ''image_url'' = Some (JStr ''https://example.com/a.png'') \<and>
   map user_parts (snd (CallTool sample_platform sample_server
       \<lparr>name = ''analyze_image'', arguments = Some empty_image_with_url_args\<rparr>)) =
     [[image_url_part ''https://example.com/a.png'' ''high'', text_part ''what is this'']]"
proof -
  have p: "empty_image_with_url_args ''prompt'' = Some (JStr ''what is this'')"
    and i: "empty_image_with_url_args ''image'' = Some (JStr [])"
    and u: "empty_image_with_url_args ''image_url'' = Some (JStr ''https://example.com/a.png'')"
    by (simp_all add: empty_image_with_url_args_def)
  from i u have "string_field empty_image_with_url_args ''image'' = Some []"
    "string_field empty_image_with_url_args ''image_url'' = Some ''https://example.com/a.png''"
    by (simp_all add: string_field_JStr)
  with p i u show ?thesis
    by (simp add: call_image sent_image user_parts_request)
qed

text \<open>
  Claim C8, amended. For a validated \<open>analyze_image\<close> or \<open>ask_grok\<close> call whose \<open>image\<close>
  is a non-empty string, the user message of the one request issued consists of exactly
  one image part, the data URL \<open>data:image/jpeg;base64,<image>\<close> with detail \<open>high\<close>,
  followed by the text part; and \<open>image_url\<close> is ignored: the outcome of the call is
  that of the call with \<open>image_url\<close> removed.
\<close>

theorem base64_image_preferred:
  assumes "nm \<in> {''analyze_image'', ''ask_grok''}"
    and "required_param nm = Some r" and "a r = Some (JStr t)"
    and "a ''image'' = Some (JStr i)" and "i \<noteq> []"
  shows "map user_parts (snd (CallTool P this \<lparr>name = nm, arguments = Some a\<rparr>)) =
           [[image_url_part (''data:image/jpeg;base64,'' @ i) ''high'',
             text_part (if nm = ''ask_grok''
                        then question_text (string_field a ''context'') t else t)]] \<and>
         CallTool P this \<lparr>name = nm, arguments = Some a\<rparr> =
           CallTool P this \<lparr>name = nm, arguments = Some (a(''image_url'' := None))\<rparr>"
  using assms(2)
proof (cases rule: required_param_cases)
  case tx
  with assms(1) show ?thesis by simp
next
  case addr
  with assms(1) show ?thesis by simp
next
  case img
  with assms(3-5) image_call_base64 [of a t i P this] show ?thesis by simp
next
  case ask
  with assms(3-5) ask_call_base64 [of a t i P this] show ?thesis by simp
qed

theorem base64_image_preferred_witness:
  "''ask_grok'' \<in> {''analyze_image'', ''ask_grok''} \<and>
   required_param ''ask_grok'' = Some ''question'' \<and>
   ask_image_args ''question'' = Some (JStr ''hi'') \<and>
   ask_image_args ''image'' = Some (JStr ''QUJD'') \<and> ''QUJD'' \<noteq> [] \<and>
   ask_image_args ''image_url'' = Some (JStr ''https://example.com/a.png'') \<and>
   map user_parts (snd (CallTool sample_platform sample_server
       \<lparr>name = ''ask_grok'', arguments = Some ask_image_args\<rparr>)) =
     [[image_url_part ''data:image/jpeg;base64,QUJD'' ''high'',
       text_part (''ctx'' @ [CHR 0x0A, CHR 0x0A] @ ''hi'')]] \<and>
   CallTool sample_platform sample_server
       \<lparr>name = ''ask_grok'', arguments = Some ask_image_args\<rparr> =
     CallTool sample_platform sample_server
       \<lparr>name = ''ask_grok'', arguments = Some (ask_image_args(''image_url'' := None))\<rparr>"
proof -
  have n: "''ask_grok'' \<in> {''analyze_image'', ''ask_grok''}"
    by simp
  have r: "required_param ''ask_grok'' = Some ''question''"
    by (simp add: required_param_def)
  have q: "ask_image_args ''question'' = Some (JStr ''hi'')"
    and i: "ask_image_args ''image'' = Some (JStr ''QUJD'')"
    and u: "ask_image_args ''image_url'' = Some (JStr ''https://example.com/a.png'')"
    and c: "string_field ask_image_args ''context'' = Some ''ctx''"
    by (simp_all add: ask_image_args_def string_field_def)
  have e: "''QUJD'' \<noteq> []"
    by simp
  note call = base64_image_preferred [OF n r q i e, of sample_platform sample_server]
  have parts: "map user_parts (snd (CallTool sample_platform sample_server
       \<lparr>name = ''ask_grok'', arguments = Some ask_image_args\<rparr>)) =
     [[image_url_part ''data:image/jpeg;base64,QUJD'' ''high'',
       text_part (''ctx'' @ [CHR 0x0A, CHR 0x0A] @ ''hi'')]]"
    using call [THEN conjunct1] c by simp
  show ?thesis
    by (intro conjI n r q i e u parts call [THEN conjunct2])
qed

section \<open>Empty optional fields\<close>

lemma empty_optional_call:
  assumes "k \<in> {''screenshot'', ''details'', ''image'', ''image_url'', ''context''}"
    and "a k = Some (JStr [])"
  shows "CallTool P this \<lparr>name = nm, arguments = Some a\<rparr> =
           CallTool P this \<lparr>name = nm, arguments = Some (a(k := None))\<rparr>"
proof (rule CallTool_cong)
  fix r :: string
  assume "r \<in> {''signature'', ''address'', ''prompt'', ''question''}"
  with assms(1) have "r \<noteq> k" by auto
  then show "string_field a r = string_field (a(k := None)) r"
    by (simp add: string_field_remove_other)
next
  fix k'
  show "present (string_field a k') = present (string_field (a(k := None)) k')"
    using assms(2) by (cases "k' = k") (simp_all add: string_field_def)
qed

lemma blank_cases: "blank a k \<Longrightarrow> string_field a k = None \<or> string_field a k = Some []"
  by (auto simp add: blank_def string_field_def)

lemma blank_screenshot_parts: "blank a k \<Longrightarrow> screenshot_parts (string_field a k) = []"
  by (auto dest: blank_cases)

lemma blank_image_parts:
  "blank a i \<Longrightarrow> blank a u \<Longrightarrow> image_parts (string_field a i) (string_field a u) = []"
  by (auto dest!: blank_cases)

lemma blank_parse_details: "blank a k \<Longrightarrow> parse_details P (string_field a k) = JObj []"
  by (auto dest: blank_cases)

lemma blank_question_text: "blank a k \<Longrightarrow> question_text (string_field a k) q = q"
  by (auto dest: blank_cases)

lemma blank_not_truthy: "blank a k \<Longrightarrow> \<not> truthy (string_field a k)"
  by (auto dest: blank_cases)

lemma no_image_part_when_blank:
  assumes "blank a ''screenshot''" and "blank a ''image''" and "blank a ''image_url''"
  shows "\<forall>req \<in> set (snd (CallTool P this \<lparr>name = nm, arguments = Some a\<rparr>)).
           user_images req = []"
proof -
  consider (tx) "nm = ''analyze_transaction''" | (addr) "nm = ''analyze_address''"
    | (img) "nm = ''analyze_image''" | (ask) "nm = ''ask_grok''"
    | (unknown) "nm \<notin> {''analyze_transaction'', ''analyze_address'', ''analyze_image'', ''ask_grok''}"
    by blast
  then show ?thesis
  proof cases
    case tx
    show ?thesis unfolding tx using assms(1)
      by (auto simp add: sent_call_transaction sent_transaction user_images_request
          blank_screenshot_parts split: option.split sum.split)
  next
    case addr
    show ?thesis unfolding addr using assms(1)
      by (auto simp add: sent_call_address sent_address user_images_request
          blank_screenshot_parts split: option.split)
  next
    case img
    show ?thesis unfolding img using assms(2,3)
      by (auto simp add: sent_call_image sent_image user_images_request
          blank_image_parts split: option.split)
  next
    case ask
    show ?thesis unfolding ask using assms(2,3)
      by (auto simp add: sent_call_ask sent_ask user_images_request
          blank_image_parts split: option.split)
  next
    case unknown
    then show ?thesis by (simp add: CallTool_unknown)
  qed
qed

lemma transaction_text_blank_details:
  assumes "a ''signature'' = Some (JStr s)" and "blank a ''details''"
  shows "map user_text (snd (CallTool P this
           \<lparr>name = ''analyze_transaction'', arguments = Some a\<rparr>)) =
         [[''Analyze this Solana transaction: '' @ s @ [CHR 0x0A, CHR 0x0A]]]"
  using assms(2)
  by (simp add: call_transaction [where a = a and s = s, OF assms(1)] sent_transaction
      blank_parse_details transaction_prompt_no_details user_text_request
      screenshot_parts_images)

lemma ask_text_blank_context:
  assumes "a ''question'' = Some (JStr q)" and "blank a ''context''"
  shows "map user_text (snd (CallTool P this \<lparr>name = ''ask_grok'', arguments = Some a\<rparr>)) =
         [[q]]"
  using assms(2)
  by (simp add: call_ask [where a = a and s = q, OF assms(1)] sent_ask blank_question_text
      user_text_request image_parts_images)

lemma ask_model_blank_images:
  assumes "a ''question'' = Some (JStr q)" and "blank a ''image''" and "blank a ''image_url''"
  shows "map (model \<circ> body)
           (snd (CallTool P this \<lparr>name = ''ask_grok'', arguments = Some a\<rparr>)) =
         [''grok-2-latest'']"
  using assms(2,3)
  by (simp add: call_ask [where a = a and s = q, OF assms(1)] sent_ask model_request
      blank_not_truthy)

text \<open>
  Claim C9. An optional field supplied as the empty string is treated as an absent one:
  for each of \<open>screenshot\<close>, \<open>details\<close>, \<open>image\<close>, \<open>image_url\<close>, \<open>context\<close> the call has
  the same outcome as the call with the field removed. In particular, when
  \<open>screenshot\<close>, \<open>image\<close> and \<open>image_url\<close> are each absent or empty no issued request has
  an image part; with \<open>details\<close> absent or empty the text of \<open>analyze_transaction\<close> is
  the line naming the signature alone; with \<open>context\<close> absent or empty the text of
  \<open>ask_grok\<close> is the question alone; and with \<open>image\<close> and \<open>image_url\<close> absent or empty
  \<open>ask_grok\<close> selects \<open>grok-2-latest\<close>.
\<close>

theorem empty_optional_is_absent:
  "(k \<in> {''screenshot'', ''details'', ''image'', ''image_url'', ''context''} \<and>
    a k = Some (JStr []) \<longrightarrow>
      CallTool P this \<lparr>name = nm, arguments = Some a\<rparr> =
        CallTool P this \<lparr>name = nm, arguments = Some (a(k := None))\<rparr>) \<and>
   (blank a ''screenshot'' \<and> blank a ''image'' \<and> blank a ''image_url'' \<longrightarrow>
      (\<forall>req \<in> set (snd (CallTool P this \<lparr>name = nm, arguments = Some a\<rparr>)).
         user_images req = [])) \<and>
   (a ''signature'' = Some (JStr s) \<and> blank a ''details'' \<longrightarrow>
      map user_text (snd (CallTool P this
        \<lparr>name = ''analyze_transaction'', arguments = Some a\<rparr>)) =
      [[''Analyze this Solana transaction: '' @ s @ [CHR 0x0A, CHR 0x0A]]]) \<and>
   (a ''question'' = Some (JStr q) \<and> blank a ''context'' \<longrightarrow>
      map user_text (snd (CallTool P this \<lparr>name = ''ask_grok'', arguments = Some a\<rparr>)) =
      [[q]]) \<and>
   (a ''question'' = Some (JStr q) \<and> blank a ''image'' \<and> blank a ''image_url'' \<longrightarrow>
      map (model \<circ> body)
        (snd (CallTool P this \<lparr>name = ''ask_grok'', arguments = Some a\<rparr>)) =
      [''grok-2-latest''])"
proof (intro conjI impI)
  assume "k \<in> {''screenshot'', ''details'', ''image'', ''image_url'', ''context''} \<and>
    a k = Some (JStr [])"
  then show "CallTool P this \<lparr>name = nm, arguments = Some a\<rparr> =
        CallTool P this \<lparr>name = nm, arguments = Some (a(k := None))\<rparr>"
    by (intro empty_optional_call) (erule conjunct1, erule conjunct2)
next
  assume "blank a ''screenshot'' \<and> blank a ''image'' \<and> blank a ''image_url''"
  then show "\<forall>req \<in> set (snd (CallTool P this \<lparr>name = nm, arguments = Some a\<rparr>)).
         user_images req = []"
    by (intro no_image_part_when_blank) blast+
next
  assume "a ''signature'' = Some (JStr s) \<and> blank a ''details''"
  then show "map user_text (snd (CallTool P this
        \<lparr>name = ''analyze_transaction'', arguments = Some a\<rparr>)) =
      [[''Analyze this Solana transaction: '' @ s @ [CHR 0x0A, CHR 0x0A]]]"
    by (intro transaction_text_blank_details) blast+
next
  assume "a ''question'' = Some (JStr q) \<and> blank a ''context''"
  then show "map user_text
        (snd (CallTool P this \<lparr>name = ''ask_grok'', arguments = Some a\<rparr>)) = [[q]]"
    by (intro ask_text_blank_context) blast+
next
  assume "a ''question'' = Some (JStr q) \<and> blank a ''image'' \<and> blank a ''image_url''"
  then show "map (model \<circ> body)
        (snd (CallTool P this \<lparr>name = ''ask_grok'', arguments = Some a\<rparr>)) =
      [''grok-2-latest'']"
    by (intro ask_model_blank_images) blast+
qed

theorem empty_optional_is_absent_witness:
  "''image'' \<in> {''screenshot'', ''details'', ''image'', ''image_url'', ''context''} \<and>
   blank_options_args ''image'' = Some (JStr []) \<and>
   CallTool sample_platform sample_server
       \<lparr>name = ''ask_grok'', arguments = Some blank_options_args\<rparr> =
     CallTool sample_platform sample_server
       \<lparr>name = ''ask_grok'', arguments = Some (blank_options_args(''image'' := None))\<rparr> \<and>
   blank blank_options_args ''screenshot'' \<and> blank blank_options_args ''image'' \<and>
   blank blank_options_args ''image_url'' \<and>
   map user_images (snd (CallTool sample_platform sample_server
       \<lparr>name = ''ask_grok'', arguments = Some blank_options_args\<rparr>)) = [[]] \<and>
   blank_options_args ''signature'' = Some (JStr ''5sig'') \<and>
   blank blank_options_args ''details'' \<and>
   map user_text (snd (CallTool sample_platform sample_server
       \<lparr>name = ''analyze_transaction'', arguments = Some blank_options_args\<rparr>)) =
     [[''Analyze this Solana transaction: 5sig'' @ [CHR 0x0A, CHR 0x0A]]] \<and>
   blank_options_args ''question'' = Some (JStr ''hi'') \<and>
   blank blank_options_args ''context'' \<and>
   map user_text (snd (CallTool sample_platform sample_server
       \<lparr>name = ''ask_grok'', arguments = Some blank_options_args\<rparr>)) = [[''hi'']] \<and>
   map (model \<circ> body) (snd (CallTool sample_platform sample_server
       \<lparr>name = ''ask_grok'', arguments = Some blank_options_args\<rparr>)) = [''grok-2-latest'']"
proof -
  have k: "''image'' \<in> {''screenshot'', ''details'', ''image'', ''image_url'', ''context''}"
    by simp
  have fields:
    "blank_options_args ''image'' = Some (JStr [])"
    "blank_options_args ''signature'' = Some (JStr ''5sig'')"
    "blank_options_args ''question'' = Some (JStr ''hi'')"
    by (simp_all add: blank_options_args_def)
  have blanks:
    "blank blank_options_args ''screenshot''" "blank blank_options_args ''image''"
    "blank blank_options_args ''image_url''" "blank blank_options_args ''details''"
    "blank blank_options_args ''context''"
    by (simp_all add: blank_options_args_def blank_def)
  have one: "\<exists>req. snd (CallTool sample_platform sample_server
       \<lparr>name = ''ask_grok'', arguments = Some blank_options_args\<rparr>) = [req]"
    by (simp add: call_ask [where a = blank_options_args and s = "''hi''", OF fields(3)]
        sent_ask)
  note call = empty_optional_is_absent [where k = "''image''" and a = blank_options_args
      and P = sample_platform and this = sample_server and nm = "''ask_grok''"
      and s = "''5sig''" and q = "''hi''"]
  have same: "CallTool sample_platform sample_server
       \<lparr>name = ''ask_grok'', arguments = Some blank_options_args\<rparr> =
     CallTool sample_platform sample_server
       \<lparr>name = ''ask_grok'', arguments = Some (blank_options_args(''image'' := None))\<rparr>"
    by (rule call [THEN conjunct1, THEN mp]) (intro conjI k fields(1))
  have "\<forall>req \<in> set (snd (CallTool sample_platform sample_server
       \<lparr>name = ''ask_grok'', arguments = Some blank_options_args\<rparr>)). user_images req = []"
    by (rule call [THEN conjunct2, THEN conjunct1, THEN mp]) (intro conjI blanks(1-3))
  with one have images: "map user_images (snd (CallTool sample_platform sample_server
       \<lparr>name = ''ask_grok'', arguments = Some blank_options_args\<rparr>)) = [[]]"
    by auto
  have "map user_text (snd (CallTool sample_platform sample_server
       \<lparr>name = ''analyze_transaction'', arguments = Some blank_options_args\<rparr>)) =
     [[''Analyze this Solana transaction: '' @ ''5sig'' @ [CHR 0x0A, CHR 0x0A]]]"
    by (rule call [THEN conjunct2, THEN conjunct2, THEN conjunct1, THEN mp])
      (intro conjI fields(2) blanks(4))
  then have prompt_text: "map user_text (snd (CallTool sample_platform sample_server
       \<lparr>name = ''analyze_transaction'', arguments = Some blank_options_args\<rparr>)) =
     [[''Analyze this Solana transaction: 5sig'' @ [CHR 0x0A, CHR 0x0A]]]"
    by simp
  have question_only: "map user_text (snd (CallTool sample_platform sample_server
       \<lparr>name = ''ask_grok'', arguments = Some blank_options_args\<rparr>)) = [[''hi'']]"
    by (rule call [THEN conjunct2, THEN conjunct2, THEN conjunct2, THEN conjunct1, THEN mp])
      (intro conjI fields(3) blanks(5))
  have text_model: "map (model \<circ> body) (snd (CallTool sample_platform sample_server
       \<lparr>name = ''ask_grok'', arguments = Some blank_options_args\<rparr>)) = [''grok-2-latest'']"
    by (rule call [THEN conjunct2, THEN conjunct2, THEN conjunct2, THEN conjunct2, THEN mp])
      (intro conjI fields(3) blanks(2,3))
  show ?thesis
    by (intro conjI k fields blanks same images prompt_text question_only text_model)
qed

section \<open>Details that parse to null\<close>

text \<open>
  Claim C10. When the \<open>details\<close> string of a validated \<open>analyze_transaction\<close> call is
  not empty and \<open>JSON.parse\<close> returns \<open>null\<close> for it, \<open>Object.keys(null)\<close> throws inside
  the handler's \<open>try\<close> block: no request is issued and the handler returns the result
  with \<open>isError: true\<close> whose text is \<open>Error analyzing transaction: \<close> followed by the
  message of the TypeError. The call with \<open>details\<close> removed does issue a request, so the
  two calls differ. (\<open>JSON.parse\<close> throws on the empty string, so a text that parses to
  \<open>null\<close> is never empty.)
\<close>

theorem null_details_fail:
  assumes "a ''signature'' = Some (JStr s)" and "a ''details'' = Some (JStr d)"
    and "d \<noteq> []" and "JSON_parse P d = Inr JNull"
  shows "CallTool P this \<lparr>name = ''analyze_transaction'', arguments = Some a\<rparr> =
           (Inr \<lparr>result_content =
                   [\<lparr>block_type = ''text'',
                     block_text = Some (JStr (''Error analyzing transaction: '' @
                       ''Cannot convert undefined or null to object''))\<rparr>],
                 isError = Some True\<rparr>, []) \<and>
         snd (CallTool P this
           \<lparr>name = ''analyze_transaction'', arguments = Some (a(''details'' := None))\<rparr>) \<noteq> []"
proof -
  let ?b = "a(''details'' := None)"
  have "string_field a ''details'' = Some d"
    using assms(2) by (rule string_field_JStr)
  with assms(3,4) have "parse_details P (string_field a ''details'') = JNull"
    by simp
  then have "transaction_prompt P s (parse_details P (string_field a ''details'')) =
      Inl (TypeError ''Cannot convert undefined or null to object'')"
    by (simp only: transaction_prompt_null)
  from transaction_construction_failure [OF assms(1) this]
  have "CallTool P this \<lparr>name = ''analyze_transaction'', arguments = Some a\<rparr> =
           (Inr \<lparr>result_content =
                   [\<lparr>block_type = ''text'',
                     block_text = Some (JStr (''Error analyzing transaction: '' @
                       ''Cannot convert undefined or null to object''))\<rparr>],
                 isError = Some True\<rparr>, [])"
    by simp
  moreover have b: "?b ''signature'' = Some (JStr s)" "string_field ?b ''details'' = None"
    using assms(1) by (simp_all add: string_field_def)
  then have "snd (CallTool P this \<lparr>name = ''analyze_transaction'', arguments = Some ?b\<rparr>) \<noteq> []"
    by (simp add: call_transaction [where a = ?b and s = s, OF b(1)] sent_transaction
        transaction_prompt_no_details)
  ultimately show ?thesis by (rule conjI)
qed

theorem null_details_fail_witness:
  "transaction_args_details ''null'' ''signature'' = Some (JStr ''5sig'') \<and>
   transaction_args_details ''null'' ''details'' = Some (JStr ''null'') \<and>
   ''null'' \<noteq> [] \<and>
   JSON_parse sample_platform ''null'' = Inr JNull \<and>
   CallTool sample_platform sample_server
       \<lparr>name = ''analyze_transaction'', arguments = Some (transaction_args_details ''null'')\<rparr> =
     (Inr \<lparr>result_content =
             [\<lparr>block_type = ''text'',
               block_text = Some (JStr
                 ''Error analyzing transaction: Cannot convert undefined or null to object'')\<rparr>],
           isError = Some True\<rparr>, []) \<and>
   snd (CallTool sample_platform sample_server
       \<lparr>name = ''analyze_transaction'',
        arguments = Some ((transaction_args_details ''null'')(''details'' := None))\<rparr>) \<noteq> []"
proof -
  have s: "transaction_args_details ''null'' ''signature'' = Some (JStr ''5sig'')"
    and d: "transaction_args_details ''null'' ''details'' = Some (JStr ''null'')"
    by (simp_all add: transaction_args_details_def)
  have n: "''null'' \<noteq> []"
    by simp
  have p: "JSON_parse sample_platform ''null'' = Inr JNull"
    by (simp add: sample_platform_def sample_parse_def)
  note call = null_details_fail [where a = "transaction_args_details ''null''"
      and P = sample_platform and this = sample_server, OF s d n p]
  have failed: "CallTool sample_platform sample_server
       \<lparr>name = ''analyze_transaction'', arguments = Some (transaction_args_details ''null'')\<rparr> =
     (Inr \<lparr>result_content =
             [\<lparr>block_type = ''text'',
               block_text = Some (JStr
                 ''Error analyzing transaction: Cannot convert undefined or null to object'')\<rparr>],
           isError = Some True\<rparr>, [])"
    using call [THEN conjunct1] by simp
  show ?thesis
    by (intro conjI s d n p failed call [THEN conjunct2])
qed

end
